theory Spec2Isabelle
  imports Main
begin

section \<open>The stream processor: the hook \<open>useClaudeMessages\<close>\<close>

text \<open>
  The hook keeps four pieces of React state (\<open>messages\<close>, \<open>rawJsonlOutput\<close>,
  \<open>isStreaming\<close>, \<open>currentSessionId\<close>) and one mutable reference
  (\<open>accumulatedContentRef\<close>). The model threads them through every operation as one record.
  Each handled record is one atomic step on the state of the latest render.

  A message (the parameter type \<open>ClaudeStreamMessage\<close>) is modelled by the properties the
  hook reads, at the types it uses them at: the type tag, the session and project ids and a
  fragment's content are strings, \<open>tool_calls\<close> is a list of fragments, token counts and call
  indices are whole numbers. An absent property is \<open>None\<close>.
\<close>

record tool_call =
  content :: "string option"
  partial_tool_call_index :: "int option"
  accumulated_content :: "string option"

record usage =
  input_tokens :: "int option"
  output_tokens :: "int option"

record message_body =
  usage :: "usage option"

record ClaudeStreamMessage =
  type :: "string option"
  tool_calls :: "tool_call list option"
  message :: "message_body option"
  session_id :: "string option"
  project_id :: "string option"

record hook_state =
  messages :: "ClaudeStreamMessage list"
  rawJsonlOutput :: "string list"
  isStreaming :: bool
  currentSessionId :: "string option"
  accumulatedContent :: "string \<rightharpoonup> string"

text \<open>
  The calls the hook makes on its \<open>options\<close> callbacks and on the console, in the order it
  makes them.
\<close>

datatype effect =
  OnStreamingChange bool "string option"
| OnTokenUpdate int
| OnSessionInfo string string
| ConsoleError string

definition initial_state :: hook_state where
  "initial_state =
     \<lparr>messages = [], rawJsonlOutput = [], isStreaming = False,
      currentSessionId = None, accumulatedContent = Map.empty\<rparr>"

subsection \<open>Keys of the accumulation buffer\<close>

text \<open>
  The buffer key of a fragment is the template string \<open>tool-${index}\<close>: the prefix followed
  by the decimal form of the index, which is how JavaScript prints a whole number (of less
  than 22 digits).
\<close>

definition digit_char :: "nat \<Rightarrow> char" where
  "digit_char d = char_of (48 + d)"

function dec :: "nat \<Rightarrow> string" where
  "dec n = (if n < 10 then [digit_char n] else dec (n div 10) @ [digit_char (n mod 10)])"
  by pat_completeness auto
termination
  by (relation "measure id") auto

declare dec.simps [simp del]

definition number_to_string :: "int \<Rightarrow> string" where
  "number_to_string i = (if i < 0 then CHR ''-'' # dec (nat (- i)) else dec (nat i))"

definition tool_key :: "int \<Rightarrow> string" where
  "tool_key i = ''tool-'' @ number_to_string i"

subsection \<open>\<open>handleMessage\<close>\<close>

text \<open>
  JavaScript truthiness of an optional string: present and not empty.
\<close>

definition truthy :: "string option \<Rightarrow> bool" where
  "truthy v = (case v of None \<Rightarrow> False | Some s \<Rightarrow> s \<noteq> [])"

text \<open>
  The body of the \<open>forEach\<close> over \<open>message.tool_calls\<close>: a fragment with a truthy
  \<open>content\<close> and a defined index extends the buffer entry of its key (created as the empty
  string when missing or empty) and gets the new entry as \<open>accumulated_content\<close>; any other
  fragment is left alone.
\<close>

definition accumulate_call ::
  "(string \<rightharpoonup> string) \<Rightarrow> tool_call \<Rightarrow> (string \<rightharpoonup> string) \<times> tool_call" where
  "accumulate_call acc toolCall =
     (if truthy (content toolCall) \<and> partial_tool_call_index toolCall \<noteq> None then
        let key = tool_key (the (partial_tool_call_index toolCall));
            acc1 = (if \<not> truthy (acc key) then acc(key \<mapsto> []) else acc);
            acc2 = acc1(key \<mapsto> the (acc1 key) @ the (content toolCall))
        in (acc2, toolCall\<lparr>accumulated_content := acc2 key\<rparr>)
      else (acc, toolCall))"

fun forEach_tool_calls ::
  "(string \<rightharpoonup> string) \<Rightarrow> tool_call list \<Rightarrow> (string \<rightharpoonup> string) \<times> tool_call list" where
  "forEach_tool_calls acc [] = (acc, [])"
| "forEach_tool_calls acc (toolCall # rest) =
     (let (acc1, toolCall') = accumulate_call acc toolCall;
          (acc2, rest') = forEach_tool_calls acc1 rest
      in (acc2, toolCall' # rest'))"

text \<open>\<open>message.message?.usage\<close>: the usage object, when the body and the usage are there.\<close>

definition message_usage :: "ClaudeStreamMessage \<Rightarrow> usage option" where
  "message_usage m = (case message m of None \<Rightarrow> None | Some body \<Rightarrow> usage body)"

text \<open>\<open>(usage.input_tokens || 0) + (usage.output_tokens || 0)\<close>\<close>

definition or_zero :: "int option \<Rightarrow> int" where
  "or_zero v = (case v of None \<Rightarrow> 0 | Some n \<Rightarrow> n)"

definition totalTokens :: "usage \<Rightarrow> int" where
  "totalTokens u = or_zero (input_tokens u) + or_zero (output_tokens u)"

text \<open>
  The \<open>if\<close>/\<open>else if\<close> chain at the head of \<open>handleMessage\<close>, in the order of the source.
  It returns the state, the message (whose fragments the \<open>partial\<close> branch annotates in
  place) and the callbacks made.
\<close>

definition dispatch ::
  "hook_state \<Rightarrow> ClaudeStreamMessage \<Rightarrow> hook_state \<times> ClaudeStreamMessage \<times> effect list" where
  "dispatch st m =
     (if type m = Some ''start'' then
        (st\<lparr>accumulatedContent := Map.empty, isStreaming := True\<rparr>, m,
         [OnStreamingChange True (currentSessionId st)])
      else if type m = Some ''partial'' then
        (case tool_calls m of
           None \<Rightarrow> (st, m, [])
         | Some tcs \<Rightarrow>
             if length tcs > 0 then
               let (acc, tcs') = forEach_tool_calls (accumulatedContent st) tcs
               in (st\<lparr>accumulatedContent := acc\<rparr>, m\<lparr>tool_calls := Some tcs'\<rparr>, [])
             else (st, m, []))
      else if type m = Some ''response'' \<and> message_usage m \<noteq> None then
        (st, m, [OnTokenUpdate (totalTokens (the (message_usage m)))])
      else if type m = Some ''error'' \<or> type m = Some ''response'' then
        (st\<lparr>isStreaming := False\<rparr>, m, [OnStreamingChange False (currentSessionId st)])
      else (st, m, []))"

text \<open>
  After the chain the message is appended to \<open>messages\<close> and its \<open>JSON.stringify\<close> to
  \<open>rawJsonlOutput\<close>; then the session identity is extracted. \<open>JSON.stringify\<close> is a
  parameter: the theorems hold for every serialiser.
\<close>

definition handleMessage ::
  "(ClaudeStreamMessage \<Rightarrow> string) \<Rightarrow> hook_state \<Rightarrow> ClaudeStreamMessage \<Rightarrow>
     hook_state \<times> effect list" where
  "handleMessage stringify st message0 =
     (let (st1, m, fx) = dispatch st message0;
          st2 = st1\<lparr>messages := messages st1 @ [m],
                    rawJsonlOutput := rawJsonlOutput st1 @ [stringify m]\<rparr>
      in if type m = Some ''session_info'' \<and> truthy (session_id m) \<and> truthy (project_id m) then
           (st2\<lparr>currentSessionId := session_id m\<rparr>,
            fx @ [OnSessionInfo (the (session_id m)) (the (project_id m))])
         else (st2, fx))"

definition clearMessages :: "hook_state \<Rightarrow> hook_state" where
  "clearMessages st =
     st\<lparr>messages := [], rawJsonlOutput := [], accumulatedContent := Map.empty\<rparr>"

subsection \<open>The transport listener\<close>

text \<open>
  The callback registered on the \<open>claude-stream\<close> channel parses the payload, casts the value
  to \<open>ClaudeStreamMessage\<close> without any check and hands it to \<open>handleMessage\<close>, all inside
  one \<open>try\<close> block. \<open>handleMessage\<close> is modelled above on the values of its parameter type.
  Outside that type, three shapes of value make it throw a \<open>TypeError\<close>:
  \<^item> the value \<open>null\<close>: reading \<open>message.type\<close> throws, before anything is done;
  \<^item> an object of type \<open>partial\<close> whose \<open>tool_calls\<close> is not an array and yet has a
    length above 0 (a non-empty string, an object with such a \<open>length\<close>): the call of
    \<open>tool_calls.forEach\<close> throws, before anything is done;
  \<^item> an object of type \<open>partial\<close> whose \<open>tool_calls\<close> is an array that holds a \<open>null\<close>:
    the \<open>forEach\<close> accumulates the fragments before the first \<open>null\<close> and throws on
    reading its \<open>content\<close>.
  Every other value is handled without a throw, and the model takes it at the parameter
  type.
\<close>

datatype parsed =
  Message ClaudeStreamMessage
| Null
| Array_like_tool_calls
| Null_fragment "tool_call list"

datatype js_error = TypeError

text \<open>
  \<open>handleMessage\<close> on what \<open>JSON.parse\<close> returned: \<open>Inl\<close> is the exception, with the state
  at the throw. Nothing is appended and no callback is made before a throw; only the
  accumulation buffer, a mutable reference, may already have been extended.
\<close>

definition handleMessage_parsed ::
  "(ClaudeStreamMessage \<Rightarrow> string) \<Rightarrow> hook_state \<Rightarrow> parsed \<Rightarrow>
     (js_error \<times> hook_state) + (hook_state \<times> effect list)" where
  "handleMessage_parsed stringify st v =
     (case v of
        Message m \<Rightarrow> Inr (handleMessage stringify st m)
      | Null \<Rightarrow> Inl (TypeError, st)
      | Array_like_tool_calls \<Rightarrow> Inl (TypeError, st)
      | Null_fragment before \<Rightarrow>
          Inl (TypeError,
               st\<lparr>accumulatedContent :=
                    fst (forEach_tool_calls (accumulatedContent st) before)\<rparr>))"

text \<open>
  The listener: the \<open>catch\<close> reports whatever was thrown in the \<open>try\<close>, by \<open>JSON.parse\<close> or
  by \<open>handleMessage\<close>, with the same message, and the payload is dropped. \<open>JSON.parse\<close> is a
  parameter, \<open>None\<close> standing for the exception it throws. (The listener of the web build
  receives the message already parsed and hands it over as it is.)
\<close>

definition claude_stream_listener ::
  "(string \<Rightarrow> parsed option) \<Rightarrow> (ClaudeStreamMessage \<Rightarrow> string) \<Rightarrow>
     hook_state \<Rightarrow> string \<Rightarrow> hook_state \<times> effect list" where
  "claude_stream_listener parse stringify st payload =
     (case parse payload of
        None \<Rightarrow> (st, [ConsoleError ''[TRACE] Failed to parse Claude stream message:''])
      | Some v \<Rightarrow>
          (case handleMessage_parsed stringify st v of
             Inl (error, st') \<Rightarrow>
               (st', [ConsoleError ''[TRACE] Failed to parse Claude stream message:''])
           | Inr handled \<Rightarrow> handled))"

text \<open>A sequence of events is handled one after the other, each on the state the last left.\<close>

fun run :: "('s \<Rightarrow> 'a \<Rightarrow> 's \<times> effect list) \<Rightarrow> 's \<Rightarrow> 'a list \<Rightarrow> 's \<times> effect list" where
  "run step st [] = (st, [])"
| "run step st (x # xs) =
     (let (st1, fx1) = step st x; (st2, fx2) = run step st1 xs in (st2, fx1 @ fx2))"

subsection \<open>\<open>loadMessages\<close>\<close>

text \<open>
  \<open>String.prototype.split('\\n')\<close>: the pieces between line feeds, an empty text giving one
  empty piece.
\<close>

fun split_newline :: "string \<Rightarrow> string list" where
  "split_newline [] = [[]]"
| "split_newline (c # cs) =
     (if c = CHR 0x0A then [] # split_newline cs
      else (case split_newline cs of [] \<Rightarrow> [[c]] | l # ls \<Rightarrow> (c # l) # ls))"

text \<open>
  The filter \<open>line => line.trim()\<close> keeps a line when something is left after trimming, that
  is when it has a character that is not white space or a line terminator. Characters are
  code units below 256; the white space among them is listed.
\<close>

definition is_js_whitespace :: "char \<Rightarrow> bool" where
  "is_js_whitespace c =
     (c = CHR 0x09 \<or> c = CHR 0x0A \<or> c = CHR 0x0B \<or> c = CHR 0x0C \<or> c = CHR 0x0D \<or>
      c = CHR 0x20 \<or> c = CHR 0xA0)"

definition trim_nonempty :: "string \<Rightarrow> bool" where
  "trim_nonempty line = list_ex (\<lambda>c. \<not> is_js_whitespace c) line"

text \<open>
  The inner \<open>forEach\<close> over the lines: a line that parses is pushed on both lists, a line that
  does not is reported and skipped. The parsed value is stored and never looked into, so
  nothing but \<open>JSON.parse\<close> can throw here; the parameter gives the message a line holds.
\<close>

fun load_lines ::
  "(string \<Rightarrow> ClaudeStreamMessage option) \<Rightarrow> string list \<Rightarrow>
     ClaudeStreamMessage list \<times> string list \<times> effect list" where
  "load_lines parse [] = ([], [], [])"
| "load_lines parse (line # lines) =
     (let (loadedMessages, loadedRawJsonl, fx) = load_lines parse lines
      in case parse line of
           Some msg \<Rightarrow> (msg # loadedMessages, line # loadedRawJsonl, fx)
         | None \<Rightarrow> (loadedMessages, loadedRawJsonl, ConsoleError ''Failed to parse JSONL:'' # fx))"

text \<open>
  The answer of \<open>api.getSessionOutput\<close> is a promise: resolved with a value or rejected.
\<close>

datatype 'a promise = Resolved 'a | Rejected

text \<open>
  \<open>loadMessages\<close>: a rejected fetch is reported and thrown again (\<open>Inl\<close>), the state as it
  was; a resolved one replaces \<open>messages\<close> and \<open>rawJsonlOutput\<close> by what the lines give.
\<close>

datatype load_error = LoadFailed

definition loadMessages ::
  "(string \<Rightarrow> ClaudeStreamMessage option) \<Rightarrow> hook_state \<Rightarrow> string promise \<Rightarrow>
     (load_error + hook_state) \<times> effect list" where
  "loadMessages parse st fetched =
     (case fetched of
        Rejected \<Rightarrow> (Inl LoadFailed, [ConsoleError ''Failed to load session outputs:''])
      | Resolved output \<Rightarrow>
          let (loadedMessages, loadedRawJsonl, fx) =
                (if output \<noteq> [] then
                   load_lines parse (filter trim_nonempty (split_newline output))
                 else ([], [], []))
          in (Inr (st\<lparr>messages := loadedMessages, rawJsonlOutput := loadedRawJsonl\<rparr>), fx))"

section \<open>A model of \<open>JSON.parse\<close> and \<open>JSON.stringify\<close>\<close>

text \<open>
  The operations above take the two built-ins as parameters, and the theorems about them
  hold for every parser and every serialiser. To run the operations on concrete payloads,
  this section gives one instance: JSON values, a recursive-descent parser and a printer.
  The instance covers the JSON texts whose numbers are integer literals and whose strings have
  no \<open>\u\<close> escape; it rejects the others.
\<close>

datatype json =
  JNull | JBool bool | JNum int | JStr string | JArr "json list" | JObj "(string \<times> json) list"

definition is_json_ws :: "char \<Rightarrow> bool" where
  "is_json_ws c = (c = CHR 0x20 \<or> c = CHR 0x09 \<or> c = CHR 0x0A \<or> c = CHR 0x0D)"

definition is_digit :: "char \<Rightarrow> bool" where
  "is_digit c = (48 \<le> (of_char c :: nat) \<and> (of_char c :: nat) \<le> 57)"

definition digits_value :: "string \<Rightarrow> nat" where
  "digits_value ds = foldl (\<lambda>n c. 10 * n + (of_char c - 48)) 0 ds"

definition parse_int :: "string \<Rightarrow> (json \<times> string) option" where
  "parse_int s =
     (let negative = (s \<noteq> [] \<and> hd s = CHR ''-'');
          s1 = (if negative then tl s else s);
          ds = takeWhile is_digit s1;
          rest = dropWhile is_digit s1
      in if ds = [] \<or> (length ds > 1 \<and> hd ds = CHR ''0'') then None
         else if rest \<noteq> [] \<and> (hd rest = CHR ''.'' \<or> hd rest = CHR ''e'' \<or> hd rest = CHR ''E'') then None
         else Some (JNum (if negative then - int (digits_value ds) else int (digits_value ds)), rest))"

definition unescape :: "char \<Rightarrow> char option" where
  "unescape e =
     (if e = CHR 0x22 \<or> e = CHR 0x5C \<or> e = CHR ''/'' then Some e
      else if e = CHR ''b'' then Some (CHR 0x08)
      else if e = CHR ''f'' then Some (CHR 0x0C)
      else if e = CHR ''n'' then Some (CHR 0x0A)
      else if e = CHR ''r'' then Some (CHR 0x0D)
      else if e = CHR ''t'' then Some (CHR 0x09)
      else None)"

fun parse_chars :: "string \<Rightarrow> string \<Rightarrow> (string \<times> string) option" where
  "parse_chars acc [] = None"
| "parse_chars acc [c] = (if c = CHR 0x22 then Some (acc, []) else None)"
| "parse_chars acc (c # e # cs) =
     (if c = CHR 0x22 then Some (acc, e # cs)
      else if c = CHR 0x5C then
        (case unescape e of None \<Rightarrow> None | Some x \<Rightarrow> parse_chars (acc @ [x]) cs)
      else if (of_char c :: nat) < 32 then None
      else parse_chars (acc @ [c]) (e # cs))"

fun set_property :: "('k \<times> 'v) list \<Rightarrow> 'k \<Rightarrow> 'v \<Rightarrow> ('k \<times> 'v) list" where
  "set_property [] k v = [(k, v)]"
| "set_property ((k', v') # kvs) k v =
     (if k' = k then (k, v) # kvs else (k', v') # set_property kvs k v)"

fun parse_value :: "nat \<Rightarrow> string \<Rightarrow> (json \<times> string) option"
and parse_elements :: "nat \<Rightarrow> json list \<Rightarrow> string \<Rightarrow> (json list \<times> string) option"
and parse_members ::
  "nat \<Rightarrow> (string \<times> json) list \<Rightarrow> string \<Rightarrow> ((string \<times> json) list \<times> string) option" where
  "parse_value 0 s = None"
| "parse_value (Suc n) s =
     (case dropWhile is_json_ws s of
        [] \<Rightarrow> None
      | c # cs \<Rightarrow>
          if c = CHR ''{'' then
            (case dropWhile is_json_ws cs of
               [] \<Rightarrow> None
             | d # ds \<Rightarrow>
                 if d = CHR ''}'' then Some (JObj [], ds)
                 else (case parse_members n [] cs of
                         None \<Rightarrow> None | Some (kvs, r) \<Rightarrow> Some (JObj kvs, r)))
          else if c = CHR ''['' then
            (case dropWhile is_json_ws cs of
               [] \<Rightarrow> None
             | d # ds \<Rightarrow>
                 if d = CHR '']'' then Some (JArr [], ds)
                 else (case parse_elements n [] cs of
                         None \<Rightarrow> None | Some (vs, r) \<Rightarrow> Some (JArr vs, r)))
          else if c = CHR 0x22 then
            (case parse_chars [] cs of None \<Rightarrow> None | Some (str, r) \<Rightarrow> Some (JStr str, r))
          else if take 4 (c # cs) = ''null'' then Some (JNull, drop 4 (c # cs))
          else if take 4 (c # cs) = ''true'' then Some (JBool True, drop 4 (c # cs))
          else if take 5 (c # cs) = ''false'' then Some (JBool False, drop 5 (c # cs))
          else parse_int (c # cs))"
| "parse_elements 0 acc s = None"
| "parse_elements (Suc n) acc s =
     (case parse_value n s of
        None \<Rightarrow> None
      | Some (v, r) \<Rightarrow>
          (case dropWhile is_json_ws r of
             [] \<Rightarrow> None
           | d # ds \<Rightarrow>
               if d = CHR '','' then parse_elements n (acc @ [v]) ds
               else if d = CHR '']'' then Some (acc @ [v], ds)
               else None))"
| "parse_members 0 acc s = None"
| "parse_members (Suc n) acc s =
     (case dropWhile is_json_ws s of
        [] \<Rightarrow> None
      | q # qs \<Rightarrow>
          if q \<noteq> CHR 0x22 then None
          else
            (case parse_chars [] qs of
               None \<Rightarrow> None
             | Some (k, r) \<Rightarrow>
                 (case dropWhile is_json_ws r of
                    [] \<Rightarrow> None
                  | colon # r1 \<Rightarrow>
                      if colon \<noteq> CHR '':'' then None
                      else
                        (case parse_value n r1 of
                           None \<Rightarrow> None
                         | Some (v, r2) \<Rightarrow>
                             (case dropWhile is_json_ws r2 of
                                [] \<Rightarrow> None
                              | d # ds \<Rightarrow>
                                  if d = CHR '','' then parse_members n (set_property acc k v) ds
                                  else if d = CHR ''}'' then Some (set_property acc k v, ds)
                                  else None)))))"

definition JSON_parse_value :: "string \<Rightarrow> json option" where
  "JSON_parse_value s =
     (case parse_value (Suc (length s)) s of
        None \<Rightarrow> None
      | Some (v, r) \<Rightarrow> if dropWhile is_json_ws r = [] then Some v else None)"

definition hex_digit :: "nat \<Rightarrow> char" where
  "hex_digit d = (if d < 10 then char_of (48 + d) else char_of (87 + d))"

definition quote_char :: "char \<Rightarrow> string" where
  "quote_char c =
     (if c = CHR 0x22 then [CHR 0x5C, CHR 0x22]
      else if c = CHR 0x5C then [CHR 0x5C, CHR 0x5C]
      else if c = CHR 0x08 then [CHR 0x5C, CHR ''b'']
      else if c = CHR 0x0C then [CHR 0x5C, CHR ''f'']
      else if c = CHR 0x0A then [CHR 0x5C, CHR ''n'']
      else if c = CHR 0x0D then [CHR 0x5C, CHR ''r'']
      else if c = CHR 0x09 then [CHR 0x5C, CHR ''t'']
      else if (of_char c :: nat) < 32 then
        [CHR 0x5C, CHR ''u'', CHR ''0'', CHR ''0'',
         hex_digit (of_char c div 16), hex_digit (of_char c mod 16)]
      else [c])"

definition quote :: "string \<Rightarrow> string" where
  "quote s = CHR 0x22 # concat (map quote_char s) @ [CHR 0x22]"

fun serialize :: "json \<Rightarrow> string"
and serialize_elements :: "json list \<Rightarrow> string"
and serialize_members :: "(string \<times> json) list \<Rightarrow> string" where
  "serialize JNull = ''null''"
| "serialize (JBool b) = (if b then ''true'' else ''false'')"
| "serialize (JNum n) = number_to_string n"
| "serialize (JStr s) = quote s"
| "serialize (JArr vs) = ''['' @ serialize_elements vs @ '']''"
| "serialize (JObj kvs) = ''{'' @ serialize_members kvs @ ''}''"
| "serialize_elements [] = []"
| "serialize_elements [v] = serialize v"
| "serialize_elements (v # w # vs) = serialize v @ '','' @ serialize_elements (w # vs)"
| "serialize_members [] = []"
| "serialize_members [(k, v)] = quote k @ '':'' @ serialize v"
| "serialize_members ((k, v) # kv # kvs) =
     quote k @ '':'' @ serialize v @ '','' @ serialize_members (kv # kvs)"


text \<open>
  The cast \<open>as ClaudeStreamMessage\<close>: the typed view of a parsed object, reading each
  property at its declared type. \<open>JSON_parse_message\<close> is the instance for \<open>loadMessages\<close>,
  which stores what it parsed and never looks inside. A text that is not an object is no
  message record.
\<close>

definition get_property :: "json \<Rightarrow> string \<Rightarrow> json option" where
  "get_property j k = (case j of JObj kvs \<Rightarrow> map_of kvs k | _ \<Rightarrow> None)"

definition as_string :: "json option \<Rightarrow> string option" where
  "as_string v = (case v of Some (JStr s) \<Rightarrow> Some s | _ \<Rightarrow> None)"

definition as_number :: "json option \<Rightarrow> int option" where
  "as_number v = (case v of Some (JNum n) \<Rightarrow> Some n | _ \<Rightarrow> None)"

definition as_tool_call :: "json \<Rightarrow> tool_call" where
  "as_tool_call j =
     \<lparr>content = as_string (get_property j ''content''),
      partial_tool_call_index = as_number (get_property j ''partial_tool_call_index''),
      accumulated_content = as_string (get_property j ''accumulated_content'')\<rparr>"

definition as_usage :: "json \<Rightarrow> usage" where
  "as_usage j =
     \<lparr>input_tokens = as_number (get_property j ''input_tokens''),
      output_tokens = as_number (get_property j ''output_tokens'')\<rparr>"

definition as_message_body :: "json \<Rightarrow> message_body" where
  "as_message_body j =
     \<lparr>usage = (case get_property j ''usage'' of Some (JObj u) \<Rightarrow> Some (as_usage (JObj u)) | _ \<Rightarrow> None)\<rparr>"

definition as_message :: "json \<Rightarrow> ClaudeStreamMessage" where
  "as_message j =
     \<lparr>type = as_string (get_property j ''type''),
      tool_calls = (case get_property j ''tool_calls'' of
                      Some (JArr tcs) \<Rightarrow> Some (map as_tool_call tcs) | _ \<Rightarrow> None),
      message = (case get_property j ''message'' of
                   Some (JObj b) \<Rightarrow> Some (as_message_body (JObj b)) | _ \<Rightarrow> None),
      session_id = as_string (get_property j ''session_id''),
      project_id = as_string (get_property j ''project_id'')\<rparr>"

definition JSON_parse_message :: "string \<Rightarrow> ClaudeStreamMessage option" where
  "JSON_parse_message s =
     (case JSON_parse_value s of Some (JObj kvs) \<Rightarrow> Some (as_message (JObj kvs)) | _ \<Rightarrow> None)"

text \<open>
  What the listener gets from \<open>JSON.parse\<close>: \<open>null\<close>, or an object, which is one of the two
  shapes on which \<open>handleMessage\<close> throws when its type is \<open>partial\<close> and its \<open>tool_calls\<close>
  is as described there, and a message otherwise.
\<close>

definition parsed_of_json :: "json \<Rightarrow> parsed option" where
  "parsed_of_json j =
     (case j of
        JNull \<Rightarrow> Some Null
      | JObj kvs \<Rightarrow>
          if as_string (get_property j ''type'') = Some ''partial'' then
            (case get_property j ''tool_calls'' of
               Some (JArr es) \<Rightarrow>
                 if list_ex (\<lambda>e. e = JNull) es then
                   Some (Null_fragment (map as_tool_call (takeWhile (\<lambda>e. e \<noteq> JNull) es)))
                 else Some (Message (as_message j))
             | Some (JStr s) \<Rightarrow>
                 if s \<noteq> [] then Some Array_like_tool_calls else Some (Message (as_message j))
             | Some (JObj props) \<Rightarrow>
                 (case map_of props ''length'' of
                    Some (JNum n) \<Rightarrow>
                      if n > 0 then Some Array_like_tool_calls else Some (Message (as_message j))
                  | _ \<Rightarrow> Some (Message (as_message j)))
             | _ \<Rightarrow> Some (Message (as_message j)))
          else Some (Message (as_message j))
      | _ \<Rightarrow> None)"

definition JSON_parse :: "string \<Rightarrow> parsed option" where
  "JSON_parse s = (case JSON_parse_value s of None \<Rightarrow> None | Some j \<Rightarrow> parsed_of_json j)"

text \<open>
  Back to a JSON object: the properties that are present, in the order \<open>type\<close>,
  \<open>tool_calls\<close>, \<open>message\<close>, \<open>session_id\<close>, \<open>project_id\<close> (for a fragment: index,
  content, accumulated content, the last being the one \<open>handleMessage\<close> adds).
\<close>

definition opt_member :: "string \<Rightarrow> ('a \<Rightarrow> json) \<Rightarrow> 'a option \<Rightarrow> (string \<times> json) list" where
  "opt_member k f v = (case v of None \<Rightarrow> [] | Some x \<Rightarrow> [(k, f x)])"

definition json_of_tool_call :: "tool_call \<Rightarrow> json" where
  "json_of_tool_call tc =
     JObj (opt_member ''partial_tool_call_index'' JNum (partial_tool_call_index tc) @
           opt_member ''content'' JStr (content tc) @
           opt_member ''accumulated_content'' JStr (accumulated_content tc))"

definition json_of_usage :: "usage \<Rightarrow> json" where
  "json_of_usage u =
     JObj (opt_member ''input_tokens'' JNum (input_tokens u) @
           opt_member ''output_tokens'' JNum (output_tokens u))"

definition json_of_message_body :: "message_body \<Rightarrow> json" where
  "json_of_message_body b = JObj (opt_member ''usage'' json_of_usage (usage b))"

definition json_of_message :: "ClaudeStreamMessage \<Rightarrow> json" where
  "json_of_message m =
     JObj (opt_member ''type'' JStr (type m) @
           opt_member ''tool_calls'' (\<lambda>tcs. JArr (map json_of_tool_call tcs)) (tool_calls m) @
           opt_member ''message'' json_of_message_body (message m) @
           opt_member ''session_id'' JStr (session_id m) @
           opt_member ''project_id'' JStr (project_id m))"

definition JSON_stringify :: "ClaudeStreamMessage \<Rightarrow> string" where
  "JSON_stringify m = serialize (json_of_message m)"

section \<open>The tab registry and the session events of \<open>TabContent\<close>\<close>

text \<open>
  \<open>TabContent\<close> listens to the bus events and drives the registry through the operations
  of the hook \<open>useTabState\<close>. A tab carries the fields the handlers read or write.
\<close>

datatype tab_type =
  Projects | Chat | Agent | Agents | Usage | Mcp | Settings | ClaudeMd | ClaudeFile
| AgentExecution | CreateAgent | ImportAgent

record session =
  session_ident :: string
  project_path :: string

record tab =
  tab_id :: string
  tab_type :: tab_type
  title :: string
  sessionId :: "string option"
  sessionData :: "session option"
  initialProjectPath :: "string option"

record registry =
  tabs :: "tab list"
  activeTabId :: "string option"

text \<open>The partial field object handed to \<open>updateTab\<close>: a field is merged when it is given.\<close>

record tab_fields =
  f_type :: "tab_type option"
  f_title :: "string option"
  f_sessionId :: "string option"
  f_sessionData :: "session option"
  f_initialProjectPath :: "string option"

definition no_fields :: tab_fields where
  "no_fields =
     \<lparr>f_type = None, f_title = None, f_sessionId = None, f_sessionData = None,
      f_initialProjectPath = None\<rparr>"

definition merge_fields :: "tab_fields \<Rightarrow> tab \<Rightarrow> tab" where
  "merge_fields f t =
     t\<lparr>tab_type := (case f_type f of None \<Rightarrow> tab_type t | Some v \<Rightarrow> v),
       title := (case f_title f of None \<Rightarrow> title t | Some v \<Rightarrow> v),
       sessionId := (case f_sessionId f of None \<Rightarrow> sessionId t | Some v \<Rightarrow> Some v),
       sessionData := (case f_sessionData f of None \<Rightarrow> sessionData t | Some v \<Rightarrow> Some v),
       initialProjectPath :=
         (case f_initialProjectPath f of None \<Rightarrow> initialProjectPath t | Some v \<Rightarrow> Some v)\<rparr>"

text \<open>
  Modelled from the spec: the registry operations of \<open>useTabState\<close> (the hook and its
  context are not among the sources). \<open>findTabBySessionId\<close> is a linear lookup of the first
  tab bound to the session.
\<close>

definition findTabBySessionId :: "registry \<Rightarrow> string \<Rightarrow> tab option" where
  "findTabBySessionId reg sid = find (\<lambda>t. sessionId t = Some sid) (tabs reg)"

text \<open>
  Modelled from the spec: \<open>updateTab\<close> merges the fields into the addressed tab and is a
  no-op when no tab has the id.
\<close>

definition updateTab :: "string \<Rightarrow> tab_fields \<Rightarrow> registry \<Rightarrow> registry" where
  "updateTab tid f reg =
     reg\<lparr>tabs := map (\<lambda>t. if tab_id t = tid then merge_fields f t else t) (tabs reg)\<rparr>"

text \<open>
  Modelled from the spec: \<open>switchTo\<close>, the reaction to the bus event \<open>switch-to-tab\<close>, sets
  the active tab.
\<close>

definition switchTo :: "string \<Rightarrow> registry \<Rightarrow> registry" where
  "switchTo tid reg = reg\<lparr>activeTabId := Some tid\<rparr>"

text \<open>
  Modelled from the spec: \<open>createChatTab\<close> appends a new chat tab bound to the session and
  makes it active. The fresh id the registry assigns is a parameter.
\<close>

definition createChatTab ::
  "string \<Rightarrow> string \<Rightarrow> string \<Rightarrow> string \<Rightarrow> registry \<Rightarrow> string \<times> registry" where
  "createChatTab newTabId sid projectName projectPath reg =
     (newTabId,
      reg\<lparr>tabs := tabs reg @
             [\<lparr>tab_id = newTabId, tab_type = Chat, title = projectName, sessionId = Some sid,
               sessionData = None, initialProjectPath = Some projectPath\<rparr>],
          activeTabId := Some newTabId\<rparr>)"

text \<open>
  \<open>session.project_path.split('/').pop() || 'Session'\<close>: the text after the last slash, or
  \<open>Session\<close> when that is empty.
\<close>

definition last_segment :: "string \<Rightarrow> string" where
  "last_segment p = rev (takeWhile (\<lambda>c. c \<noteq> CHR ''/'') (rev p))"

definition session_title :: "session \<Rightarrow> string" where
  "session_title s =
     (if last_segment (project_path s) = [] then ''Session'' else last_segment (project_path s))"

text \<open>The handler of \<open>open-session-in-tab\<close>, from \<open>TabContent\<close>.\<close>

definition handleOpenSessionInTab :: "string \<Rightarrow> session \<Rightarrow> registry \<Rightarrow> registry" where
  "handleOpenSessionInTab newTabId s reg =
     (case findTabBySessionId reg (session_ident s) of
        Some existingTab \<Rightarrow>
          switchTo (tab_id existingTab)
            (updateTab (tab_id existingTab)
               (no_fields\<lparr>f_sessionData := Some s, f_title := Some (session_title s)\<rparr>) reg)
      | None \<Rightarrow>
          let (tid, reg1) =
                createChatTab newTabId (session_ident s) (session_title s) (project_path s) reg
          in updateTab tid
               (no_fields\<lparr>f_sessionData := Some s,
                          f_initialProjectPath := Some (project_path s)\<rparr>) reg1)"

text \<open>
  The handler of \<open>claude-session-selected\<close>, from \<open>TabContent\<close>: as above when the session
  has a tab; otherwise an active \<open>projects\<close> tab is converted in place, and a new chat tab is
  created when the active tab is of another type or there is none.
\<close>

definition handleClaudeSessionSelected :: "string \<Rightarrow> session \<Rightarrow> registry \<Rightarrow> registry" where
  "handleClaudeSessionSelected newTabId s reg =
     (case findTabBySessionId reg (session_ident s) of
        Some existingTab \<Rightarrow>
          switchTo (tab_id existingTab)
            (updateTab (tab_id existingTab)
               (no_fields\<lparr>f_sessionData := Some s, f_title := Some (session_title s)\<rparr>) reg)
      | None \<Rightarrow>
          (case find (\<lambda>t. Some (tab_id t) = activeTabId reg) (tabs reg) of
             Some currentTab \<Rightarrow>
               if tab_type currentTab = Projects then
                 updateTab (tab_id currentTab)
                   \<lparr>f_type = Some Chat, f_title = Some (session_title s),
                    f_sessionId = Some (session_ident s), f_sessionData = Some s,
                    f_initialProjectPath = Some (project_path s)\<rparr> reg
               else
                 (let (tid, reg1) =
                        createChatTab newTabId (session_ident s) (session_title s)
                          (project_path s) reg
                  in updateTab tid
                       (no_fields\<lparr>f_sessionData := Some s,
                                  f_initialProjectPath := Some (project_path s)\<rparr>) reg1)
           | None \<Rightarrow>
               (let (tid, reg1) =
                      createChatTab newTabId (session_ident s) (session_title s)
                        (project_path s) reg
                in updateTab tid
                     (no_fields\<lparr>f_sessionData := Some s,
                                f_initialProjectPath := Some (project_path s)\<rparr>) reg1)))"

text \<open>The session ids that tabs are bound to, one entry per bound tab.\<close>

definition bound_sessions :: "registry \<Rightarrow> string list" where
  "bound_sessions reg = concat (map (\<lambda>t. case sessionId t of None \<Rightarrow> [] | Some sid \<Rightarrow> [sid]) (tabs reg))"

section \<open>The persisted tool list of \<open>MCPServerList\<close>\<close>

text \<open>
  The component keeps \<open>serverTools\<close>, an object from server names to tool names (kept as an
  association list in property order), and mirrors it under the key \<open>mcp_server_tools\<close> of
  \<open>localStorage\<close>. The parse and the serialiser of that object are parameters.
\<close>

type_synonym server_tools = "(string \<times> string list) list"

record mcp_state =
  serverTools :: server_tools
  testingServer :: "string option"
  localStorage :: "string \<rightharpoonup> string"

datatype mcp_effect =
  McpConsoleError string
| TrackServerConnected string bool string
| TrackConnectionError string

definition mcp_initial :: "(string \<rightharpoonup> string) \<Rightarrow> mcp_state" where
  "mcp_initial store = \<lparr>serverTools = [], testingServer = None, localStorage = store\<rparr>"

text \<open>
  The mount effect: a saved value that is there and not empty is parsed and becomes the
  state; a parse that throws is caught and reported.
\<close>

definition load_server_tools ::
  "(string \<Rightarrow> server_tools option) \<Rightarrow> mcp_state \<Rightarrow> mcp_state \<times> mcp_effect list" where
  "load_server_tools parse st =
     (case localStorage st ''mcp_server_tools'' of
        None \<Rightarrow> (st, [])
      | Some savedTools \<Rightarrow>
          if savedTools = [] then (st, [])
          else (case parse savedTools of
                  Some parsed \<Rightarrow> (st\<lparr>serverTools := parsed\<rparr>, [])
                | None \<Rightarrow> (st, [McpConsoleError ''Failed to parse saved server tools:''])))"

text \<open>
  \<open>handleTestConnection\<close>. The answer of \<open>api.mcpGet\<close> is a promise of the truth value of
  \<open>details.status?.running\<close>; \<open>transport\<close> is \<open>server?.transport || 'unknown'\<close> for the server
  of that name in the props.
\<close>

definition tools_of_status :: "bool \<Rightarrow> string list" where
  "tools_of_status running = (if running then [''fetch'', ''list''] else [])"

definition handleTestConnection ::
  "(server_tools \<Rightarrow> string) \<Rightarrow> (string \<Rightarrow> bool promise) \<Rightarrow> string \<Rightarrow> string \<Rightarrow>
     mcp_state \<Rightarrow> mcp_state \<times> mcp_effect list" where
  "handleTestConnection stringify mcpGet transport name st =
     (let st1 = st\<lparr>testingServer := Some name\<rparr>;
          (st2, fx) =
            (case mcpGet name of
               Resolved running \<Rightarrow>
                 let newTools = set_property (serverTools st1) name (tools_of_status running)
                 in (st1\<lparr>serverTools := newTools,
                         localStorage := (localStorage st1)(''mcp_server_tools'' \<mapsto> stringify newTools)\<rparr>,
                     [TrackServerConnected name running transport])
             | Rejected \<Rightarrow>
                 (st1, [McpConsoleError ''Failed to get server details:'',
                        TrackConnectionError name]))
      in (st2\<lparr>testingServer := None\<rparr>, fx))"

text \<open>
  \<open>handleRefreshAllStatuses\<close>: a fresh object gets one entry per server of the props, the
  empty list for a server whose status cannot be fetched; it replaces the state and is
  written to the store.
\<close>

fun refresh_tools ::
  "(string \<Rightarrow> bool promise) \<Rightarrow> server_tools \<Rightarrow> string list \<Rightarrow> server_tools \<times> mcp_effect list" where
  "refresh_tools mcpGet newTools [] = (newTools, [])"
| "refresh_tools mcpGet newTools (name # names) =
     (case mcpGet name of
        Resolved running \<Rightarrow>
          refresh_tools mcpGet (set_property newTools name (tools_of_status running)) names
      | Rejected \<Rightarrow>
          (let (tools, fx) = refresh_tools mcpGet (set_property newTools name []) names
           in (tools, McpConsoleError (''Failed to get status for '' @ name @ '':'') # fx)))"

definition handleRefreshAllStatuses ::
  "(server_tools \<Rightarrow> string) \<Rightarrow> (string \<Rightarrow> bool promise) \<Rightarrow> string list \<Rightarrow>
     mcp_state \<Rightarrow> mcp_state \<times> mcp_effect list" where
  "handleRefreshAllStatuses stringify mcpGet servers st =
     (let (newTools, fx) = refresh_tools mcpGet [] servers
      in (st\<lparr>serverTools := newTools,
             localStorage := (localStorage st)(''mcp_server_tools'' \<mapsto> stringify newTools)\<rparr>, fx))"

text \<open>The instance of the two parameters on the JSON model.\<close>

definition as_string_list :: "json \<Rightarrow> string list" where
  "as_string_list j =
     (case j of JArr vs \<Rightarrow> concat (map (\<lambda>v. case v of JStr s \<Rightarrow> [s] | _ \<Rightarrow> []) vs) | _ \<Rightarrow> [])"

definition JSON_parse_tools :: "string \<Rightarrow> server_tools option" where
  "JSON_parse_tools s =
     (case JSON_parse_value s of
        Some (JObj kvs) \<Rightarrow> Some (map (\<lambda>kv. (fst kv, as_string_list (snd kv))) kvs)
      | _ \<Rightarrow> None)"

definition JSON_stringify_tools :: "server_tools \<Rightarrow> string" where
  "JSON_stringify_tools tools =
     serialize (JObj (map (\<lambda>kv. (fst kv, JArr (map JStr (snd kv)))) tools))"

section \<open>Notions used in the statements\<close>

text \<open>
  The fragments a \<open>partial\<close> message carries (none for any other message), the text a
  fragment contributes, and the concatenation, in list order, of what the fragments of one
  call index contribute.
\<close>

definition fragments :: "ClaudeStreamMessage \<Rightarrow> tool_call list" where
  "fragments m =
     (if type m = Some ''partial'' then (case tool_calls m of None \<Rightarrow> [] | Some tcs \<Rightarrow> tcs)
      else [])"

definition content_text :: "tool_call \<Rightarrow> string" where
  "content_text tc = (case content tc of None \<Rightarrow> [] | Some c \<Rightarrow> c)"

definition concatenated :: "int \<Rightarrow> tool_call list \<Rightarrow> string" where
  "concatenated i frags =
     concat (map content_text (filter (\<lambda>tc. partial_tool_call_index tc = Some i) frags))"

text \<open>What the buffer holds for a call index, a missing entry read as the empty text.\<close>

definition buffered :: "(string \<rightharpoonup> string) \<Rightarrow> int \<Rightarrow> string" where
  "buffered acc i = (case acc (tool_key i) of None \<Rightarrow> [] | Some s \<Rightarrow> s)"

text \<open>
  A message with the \<open>accumulated_content\<close> of its fragments erased, and the relation between
  a parsed message and the message logged for it: the same message, up to the
  \<open>accumulated_content\<close> of the fragments when it is a \<open>partial\<close>.
\<close>

definition without_accumulated :: "ClaudeStreamMessage \<Rightarrow> ClaudeStreamMessage" where
  "without_accumulated m =
     m\<lparr>tool_calls := map_option (map (\<lambda>tc. tc\<lparr>accumulated_content := None\<rparr>)) (tool_calls m)\<rparr>"

definition logged_form :: "ClaudeStreamMessage \<Rightarrow> ClaudeStreamMessage \<Rightarrow> bool" where
  "logged_form m m' =
     ((type m \<noteq> Some ''partial'' \<longrightarrow> m' = m) \<and> without_accumulated m' = without_accumulated m)"

text \<open>
  The message a payload delivers to \<open>handleMessage\<close>: the payload parses, and to a value of
  the parameter type, so that \<open>handleMessage\<close> does not throw on it.
\<close>

definition delivered :: "(string \<Rightarrow> parsed option) \<Rightarrow> string \<Rightarrow> ClaudeStreamMessage option" where
  "delivered parse p = (case parse p of Some (Message m) \<Rightarrow> Some m | _ \<Rightarrow> None)"

text \<open>A text that the parser accepts; the lines of a blob that survive the filter.\<close>

definition parses :: "(string \<Rightarrow> ClaudeStreamMessage option) \<Rightarrow> string \<Rightarrow> bool" where
  "parses parse p = (parse p \<noteq> None)"

definition nonblank_lines :: "string \<Rightarrow> string list" where
  "nonblank_lines output = filter trim_nonempty (split_newline output)"

subsection \<open>Example messages and payloads\<close>

definition blank_message :: ClaudeStreamMessage where
  "blank_message =
     \<lparr>type = None, tool_calls = None, message = None, session_id = None, project_id = None\<rparr>"

definition fragment :: "int \<Rightarrow> string \<Rightarrow> tool_call" where
  "fragment i c =
     \<lparr>content = Some c, partial_tool_call_index = Some i, accumulated_content = None\<rparr>"

definition message_start :: ClaudeStreamMessage where
  "message_start = blank_message\<lparr>type := Some ''start''\<rparr>"

definition message_partial :: "tool_call list \<Rightarrow> ClaudeStreamMessage" where
  "message_partial tcs = blank_message\<lparr>type := Some ''partial'', tool_calls := Some tcs\<rparr>"

definition message_response :: "usage option \<Rightarrow> ClaudeStreamMessage" where
  "message_response u = blank_message\<lparr>type := Some ''response'', message := Some \<lparr>usage = u\<rparr>\<rparr>"

definition payload_start :: string where
  \<open>payload_start = ''{"type":"start"}''\<close>

definition payload_partial_Hel :: string where
  \<open>payload_partial_Hel =
     ''{"type":"partial","tool_calls":[{"partial_tool_call_index":0,"content":"Hel"}]}''\<close>

definition payload_partial_lo :: string where
  \<open>payload_partial_lo =
     ''{"type":"partial","tool_calls":[{"partial_tool_call_index":0,"content":"lo"}]}''\<close>

definition payload_partial_empty :: string where
  \<open>payload_partial_empty =
     ''{"type":"partial","tool_calls":[{"partial_tool_call_index":0,"content":""}]}''\<close>

definition payload_response_usage :: string where
  \<open>payload_response_usage =
     ''{"type":"response","message":{"usage":{"input_tokens":10,"output_tokens":5}}}''\<close>

definition payload_malformed :: string where
  \<open>payload_malformed = ''{"type":"partial"''\<close>

definition payload_null :: string where
  "payload_null = ''null''"

definition payload_null_fragment :: string where
  \<open>payload_null_fragment =
     ''{"type":"partial","tool_calls":[{"partial_tool_call_index":0,"content":"Hel"},null]}''\<close>

definition payload_text_tool_calls :: string where
  \<open>payload_text_tool_calls = ''{"type":"partial","tool_calls":"abc"}''\<close>

definition payload_start_spaced :: string where
  \<open>payload_start_spaced = ''{ "type": "start" }''\<close>

definition logged_partial_Hel :: string where
  \<open>logged_partial_Hel =
     ''{"type":"partial","tool_calls":[{"partial_tool_call_index":0,"content":"Hel","accumulated_content":"Hel"}]}''\<close>

definition message_session_info :: "string option \<Rightarrow> string option \<Rightarrow> ClaudeStreamMessage" where
  "message_session_info sid pid =
     blank_message\<lparr>type := Some ''session_info'', session_id := sid, project_id := pid\<rparr>"

text \<open>A stored blob of four lines: a start, a cut-off record, a blank line and a response.\<close>

definition stored_blob :: string where
  "stored_blob =
     payload_start @ [CHR 0x0A] @ payload_malformed @ [CHR 0x0A] @ [CHR 0x20, CHR 0x0A] @
     payload_response_usage @ [CHR 0x0A]"

text \<open>A registry of two chat tabs bound to the sessions \<open>s1\<close> and \<open>s2\<close>, and the session \<open>s2\<close>.\<close>

definition tab_of_session :: "string \<Rightarrow> string \<Rightarrow> tab" where
  "tab_of_session tid sid =
     \<lparr>tab_id = tid, tab_type = Chat, title = ''Chat'', sessionId = Some sid, sessionData = None,
      initialProjectPath = None\<rparr>"

definition example_registry :: registry where
  "example_registry =
     \<lparr>tabs = [tab_of_session ''t1'' ''s1'', tab_of_session ''t2'' ''s2''],
      activeTabId = Some ''t1''\<rparr>"

definition example_session :: session where
  "example_session = \<lparr>session_ident = ''s2'', project_path = ''/home/u/proj''\<rparr>"

text \<open>A store whose saved tool list is cut off, and one whose saved tool list is whole.\<close>

definition corrupt_store :: "string \<rightharpoonup> string" where
  \<open>corrupt_store = [''mcp_server_tools'' \<mapsto> ''{"srv":["fetch",'']\<close>

definition saved_store :: "string \<rightharpoonup> string" where
  \<open>saved_store = [''mcp_server_tools'' \<mapsto> ''{"srv":["fetch","list"]}'']\<close>

text \<open>
  A hook in the middle of a turn: the session identity captured, streaming, one fragment
  buffered. And the state a fresh hook is in after loading the stored blob.
\<close>

definition live_state :: hook_state where
  "live_state =
     fst (run (handleMessage JSON_stringify) initial_state
       [message_session_info (Some ''s1'') (Some ''p1''), message_start,
        message_partial [fragment 0 ''Hel'']])"

definition loaded_state :: hook_state where
  "loaded_state =
     initial_state
       \<lparr>messages := [message_start,
           message_response (Some \<lparr>input_tokens = Some 10, output_tokens = Some 5\<rparr>)],
        rawJsonlOutput := [payload_start, payload_response_usage]\<rparr>"

section \<open>Buffer keys are injective\<close>

text \<open>
  Two call indices never share a buffer key: the decimal form of a number determines it.
\<close>

lemma dec_nonempty: "dec n \<noteq> []"
  by (subst dec.simps) simp

lemma digit_char_inj: "d < 10 \<Longrightarrow> e < 10 \<Longrightarrow> digit_char d = digit_char e \<Longrightarrow> d = e"
proof -
  assume d: "d < 10" and e: "e < 10" and eq: "digit_char d = digit_char e"
  from eq have "(of_char (digit_char d) :: nat) = of_char (digit_char e)" by simp
  with d e show "d = e" by (simp add: digit_char_def)
qed

lemma digit_char_not_minus: "d < 10 \<Longrightarrow> digit_char d \<noteq> CHR ''-''"
proof
  assume d: "d < 10" and eq: "digit_char d = CHR ''-''"
  from eq have "(of_char (digit_char d) :: nat) = of_char (CHR ''-'')" by simp
  with d show False by (simp add: digit_char_def)
qed

lemma dec_inj: "dec m = dec n \<Longrightarrow> m = n"
proof (induction m arbitrary: n rule: dec.induct)
  case (1 m)
  show ?case
  proof (cases "m < 10")
    case small: True
    show ?thesis
    proof (cases "n < 10")
      case True
      with small "1.prems" show ?thesis
        by (simp add: dec.simps [of m] dec.simps [of n] digit_char_inj)
    next
      case False
      with small "1.prems" dec_nonempty [of "n div 10"] show ?thesis
        by (simp add: dec.simps [of m] dec.simps [of n])
    qed
  next
    case big: False
    show ?thesis
    proof (cases "n < 10")
      case True
      with big "1.prems" dec_nonempty [of "m div 10"] show ?thesis
        by (simp add: dec.simps [of m] dec.simps [of n])
    next
      case False
      with big "1.prems" have eq: "dec (m div 10) = dec (n div 10)"
        and dg: "digit_char (m mod 10) = digit_char (n mod 10)"
        by (simp_all add: dec.simps [of m] dec.simps [of n])
      from "1.IH" [OF big eq] have "m div 10 = n div 10" .
      moreover from dg have "m mod 10 = n mod 10" by (simp add: digit_char_inj)
      ultimately show ?thesis by (metis div_mult_mod_eq)
    qed
  qed
qed

lemma dec_hd_not_minus: "hd (dec n) \<noteq> CHR ''-''"
proof (induction n rule: dec.induct)
  case (1 n)
  show ?case
  proof (cases "n < 10")
    case True
    then show ?thesis by (simp add: dec.simps [of n] digit_char_not_minus)
  next
    case False
    with "1.IH" dec_nonempty [of "n div 10"] show ?thesis
      by (simp add: dec.simps [of n])
  qed
qed

lemma number_to_string_inj: "number_to_string i = number_to_string j \<Longrightarrow> i = j"
proof -
  assume eq: "number_to_string i = number_to_string j"
  have neg: "CHR ''-'' # dec a \<noteq> dec b" for a b
    using dec_hd_not_minus [of b] dec_nonempty [of b] by (cases "dec b") auto
  show "i = j"
  proof (cases "i < 0")
    case ineg: True
    show ?thesis
    proof (cases "j < 0")
      case True
      with ineg eq have "dec (nat (- i)) = dec (nat (- j))" by (simp add: number_to_string_def)
      then have "nat (- i) = nat (- j)" by (rule dec_inj)
      with ineg True show ?thesis by simp
    next
      case False
      with ineg eq neg [of "nat (- i)" "nat j"] show ?thesis by (simp add: number_to_string_def)
    qed
  next
    case ipos: False
    show ?thesis
    proof (cases "j < 0")
      case True
      with ipos eq neg [of "nat (- j)" "nat i"] show ?thesis by (simp add: number_to_string_def)
    next
      case False
      with ipos eq have "dec (nat i) = dec (nat j)" by (simp add: number_to_string_def)
      then have "nat i = nat j" by (rule dec_inj)
      with ipos False show ?thesis by simp
    qed
  qed
qed

lemma tool_key_inj: "tool_key i = tool_key j \<longleftrightarrow> i = j"
  by (auto simp: tool_key_def dest: number_to_string_inj)

lemma concatenated_append:
  "concatenated i (xs @ ys) = concatenated i xs @ concatenated i ys"
  by (simp add: concatenated_def)

lemma accumulate_call_buffered:
  assumes "accumulate_call acc tc = (acc', tc')"
  shows "buffered acc' j = buffered acc j @ concatenated j [tc]"
proof (cases "truthy (content tc) \<and> partial_tool_call_index tc \<noteq> None")
  case True
  then obtain c i where c: "content tc = Some c" "c \<noteq> []" and i: "partial_tool_call_index tc = Some i"
    by (auto simp: truthy_def split: option.splits)
  from assms c i have acc': "acc' = (if \<not> truthy (acc (tool_key i)) then acc(tool_key i \<mapsto> []) else acc)
      (tool_key i \<mapsto> the ((if \<not> truthy (acc (tool_key i)) then acc(tool_key i \<mapsto> []) else acc) (tool_key i)) @ c)"
    by (simp add: accumulate_call_def truthy_def Let_def)
  show ?thesis
  proof (cases "j = i")
    case True
    with acc' c i show ?thesis
      by (auto simp: buffered_def concatenated_def content_text_def truthy_def split: option.splits)
  next
    case False
    with acc' c i show ?thesis
      by (auto simp: buffered_def concatenated_def tool_key_inj)
  qed
next
  case False
  with assms have "acc' = acc" by (auto simp: accumulate_call_def)
  moreover from False have "concatenated j [tc] = []"
    by (auto simp: concatenated_def content_text_def truthy_def split: option.splits)
  ultimately show ?thesis by simp
qed

lemma accumulate_call_fields:
  assumes "accumulate_call acc tc = (acc', tc')"
  shows "content tc' = content tc" and "partial_tool_call_index tc' = partial_tool_call_index tc"
  using assms by (auto simp: accumulate_call_def Let_def split: if_splits)

lemma accumulate_call_attached:
  assumes "accumulate_call acc tc = (acc', tc')"
    and "truthy (content tc)" and "partial_tool_call_index tc = Some i"
  shows "accumulated_content tc' = Some (buffered acc i @ concatenated i [tc])"
proof -
  from assms have "accumulated_content tc' = acc' (tool_key i)"
    by (auto simp: accumulate_call_def Let_def)
  moreover from assms have "acc' (tool_key i) \<noteq> None"
    by (auto simp: accumulate_call_def Let_def)
  moreover have "buffered acc' i = buffered acc i @ concatenated i [tc]"
    using assms(1) by (rule accumulate_call_buffered)
  ultimately show ?thesis by (auto simp: buffered_def)
qed

section \<open>The accumulation of fragments\<close>

lemma forEach_length:
  "forEach_tool_calls acc tcs = (acc', tcs') \<Longrightarrow> length tcs' = length tcs"
  by (induction tcs arbitrary: acc acc' tcs') (auto split: prod.splits)

lemma forEach_buffered:
  "forEach_tool_calls acc tcs = (acc', tcs') \<Longrightarrow>
     buffered acc' j = buffered acc j @ concatenated j tcs"
proof (induction tcs arbitrary: acc acc' tcs')
  case Nil
  then show ?case by (simp add: concatenated_def)
next
  case (Cons tc tcs)
  obtain a1 tc1 where h: "accumulate_call acc tc = (a1, tc1)" by (cases "accumulate_call acc tc")
  obtain a2 r where t: "forEach_tool_calls a1 tcs = (a2, r)" by (cases "forEach_tool_calls a1 tcs")
  from Cons.prems h t have "acc' = a2" by simp
  moreover have "buffered a2 j = buffered a1 j @ concatenated j tcs" using t by (rule Cons.IH)
  moreover have "buffered a1 j = buffered acc j @ concatenated j [tc]"
    using h by (rule accumulate_call_buffered)
  moreover have "concatenated j (tc # tcs) = concatenated j [tc] @ concatenated j tcs"
    using concatenated_append [of j "[tc]" tcs] by simp
  ultimately show ?case by simp
qed

lemma forEach_attached:
  "forEach_tool_calls acc tcs = (acc', tcs') \<Longrightarrow> n < length tcs \<Longrightarrow>
   truthy (content (tcs ! n)) \<Longrightarrow> partial_tool_call_index (tcs ! n) = Some i \<Longrightarrow>
     accumulated_content (tcs' ! n) = Some (buffered acc i @ concatenated i (take (Suc n) tcs))"
proof (induction tcs arbitrary: acc acc' tcs' n)
  case Nil
  then show ?case by simp
next
  case (Cons tc tcs)
  obtain a1 tc1 where h: "accumulate_call acc tc = (a1, tc1)" by (cases "accumulate_call acc tc")
  obtain a2 r where t: "forEach_tool_calls a1 tcs = (a2, r)" by (cases "forEach_tool_calls a1 tcs")
  from Cons.prems(1) h t have out: "tcs' = tc1 # r" by simp
  show ?case
  proof (cases n)
    case 0
    with Cons.prems have "truthy (content tc)" "partial_tool_call_index tc = Some i" by simp_all
    with h have "accumulated_content tc1 = Some (buffered acc i @ concatenated i [tc])"
      by (rule accumulate_call_attached)
    with 0 out show ?thesis by simp
  next
    case (Suc k)
    with Cons.prems have k: "k < length tcs" "truthy (content (tcs ! k))"
      "partial_tool_call_index (tcs ! k) = Some i" by simp_all
    from Cons.IH [OF t k]
    have "accumulated_content (r ! k) = Some (buffered a1 i @ concatenated i (take (Suc k) tcs))" .
    moreover have "buffered a1 i = buffered acc i @ concatenated i [tc]"
      using h by (rule accumulate_call_buffered)
    moreover have "concatenated i (tc # take (Suc k) tcs) =
        concatenated i [tc] @ concatenated i (take (Suc k) tcs)"
      using concatenated_append [of i "[tc]" "take (Suc k) tcs"] by simp
    ultimately show ?thesis using Suc out by simp
  qed
qed

text \<open>One message that is not a start.\<close>

lemma handleMessage_fragments:
  assumes "type m \<noteq> Some ''start''"
  obtains m' where
    "messages (fst (handleMessage S st m)) = messages st @ [m']"
    "length (fragments m') = length (fragments m)"
    "\<And>j. buffered (accumulatedContent (fst (handleMessage S st m))) j =
          buffered (accumulatedContent st) j @ concatenated j (fragments m)"
    "\<And>n i. n < length (fragments m) \<Longrightarrow> truthy (content (fragments m ! n)) \<Longrightarrow>
        partial_tool_call_index (fragments m ! n) = Some i \<Longrightarrow>
        accumulated_content (fragments m' ! n) =
          Some (buffered (accumulatedContent st) i @ concatenated i (take (Suc n) (fragments m)))"
proof (cases "type m = Some ''partial'' \<and> (\<exists>tcs. tool_calls m = Some tcs \<and> tcs \<noteq> [])")
  case True
  then obtain tcs where p: "type m = Some ''partial''" and tcs: "tool_calls m = Some tcs" "tcs \<noteq> []"
    by blast
  obtain acc' tcs' where fe: "forEach_tool_calls (accumulatedContent st) tcs = (acc', tcs')"
    by (cases "forEach_tool_calls (accumulatedContent st) tcs")
  let ?m' = "m\<lparr>tool_calls := Some tcs'\<rparr>"
  from p tcs fe have d: "dispatch st m = (st\<lparr>accumulatedContent := acc'\<rparr>, ?m', [])"
    by (simp add: dispatch_def)
  from p have fm: "fragments m = tcs" "fragments ?m' = tcs'" using tcs by (simp_all add: fragments_def)
  show ?thesis
  proof (rule that [of ?m'])
    show "messages (fst (handleMessage S st m)) = messages st @ [?m']"
      using d p by (simp add: handleMessage_def)
    show "length (fragments ?m') = length (fragments m)"
      using fm forEach_length [OF fe] by simp
    show "buffered (accumulatedContent (fst (handleMessage S st m))) j =
          buffered (accumulatedContent st) j @ concatenated j (fragments m)" for j
      using d p fm forEach_buffered [OF fe, of j] by (simp add: handleMessage_def)
    show "accumulated_content (fragments ?m' ! n) =
          Some (buffered (accumulatedContent st) i @ concatenated i (take (Suc n) (fragments m)))"
      if "n < length (fragments m)" "truthy (content (fragments m ! n))"
        "partial_tool_call_index (fragments m ! n) = Some i" for n i
      using that fm forEach_attached [OF fe, of n i] by simp
  qed
next
  case False
  with assms have fm: "fragments m = []"
    by (auto simp: fragments_def split: option.splits)
  from False assms have d: "fst (snd (dispatch st m)) = m"
    "accumulatedContent (fst (dispatch st m)) = accumulatedContent st"
    "messages (fst (dispatch st m)) = messages st"
    by (auto simp: dispatch_def split: option.splits)
  show ?thesis
  proof (rule that [of m])
    show "messages (fst (handleMessage S st m)) = messages st @ [m]"
      using d by (auto simp: handleMessage_def Let_def split: prod.splits)
    show "length (fragments m) = length (fragments m)" ..
    show "buffered (accumulatedContent (fst (handleMessage S st m))) j =
          buffered (accumulatedContent st) j @ concatenated j (fragments m)" for j
      using d fm by (auto simp: handleMessage_def Let_def concatenated_def split: prod.splits)
    show "accumulated_content (fragments m ! n) =
          Some (buffered (accumulatedContent st) i @ concatenated i (take (Suc n) (fragments m)))"
      if "n < length (fragments m)" for n i
      using that fm by simp
  qed
qed

lemma run_Cons_fst:
  "fst (run step st (x # xs)) = fst (run step (fst (step st x)) xs)"
  by (simp split: prod.splits)

lemma run_fragments:
  "\<forall>m \<in> set ms. type m \<noteq> Some ''start'' \<Longrightarrow>
   \<exists>ms'. messages (fst (run (handleMessage S) st ms)) = messages st @ ms' \<and>
         length ms' = length ms \<and>
         length (concat (map fragments ms')) = length (concat (map fragments ms)) \<and>
         (\<forall>j. buffered (accumulatedContent (fst (run (handleMessage S) st ms))) j =
               buffered (accumulatedContent st) j @ concatenated j (concat (map fragments ms))) \<and>
         (\<forall>n i. n < length (concat (map fragments ms)) \<longrightarrow>
                truthy (content (concat (map fragments ms) ! n)) \<longrightarrow>
                partial_tool_call_index (concat (map fragments ms) ! n) = Some i \<longrightarrow>
                accumulated_content (concat (map fragments ms') ! n) =
                  Some (buffered (accumulatedContent st) i @
                        concatenated i (take (Suc n) (concat (map fragments ms)))))"
proof (induction ms arbitrary: st)
  case Nil
  then show ?case by (simp add: concatenated_def)
next
  case (Cons m rest)
  let ?st1 = "fst (handleMessage S st m)"
  let ?A = "fragments m"
  let ?B = "concat (map fragments rest)"
  from Cons.prems have nostart: "type m \<noteq> Some ''start''"
    and rest: "\<forall>m \<in> set rest. type m \<noteq> Some ''start''" by simp_all
  obtain m' where m':
    "messages ?st1 = messages st @ [m']"
    "length (fragments m') = length ?A"
    "\<And>j. buffered (accumulatedContent ?st1) j = buffered (accumulatedContent st) j @ concatenated j ?A"
    "\<And>n i. n < length ?A \<Longrightarrow> truthy (content (?A ! n)) \<Longrightarrow>
        partial_tool_call_index (?A ! n) = Some i \<Longrightarrow>
        accumulated_content (fragments m' ! n) =
          Some (buffered (accumulatedContent st) i @ concatenated i (take (Suc n) ?A))"
    using nostart by (rule handleMessage_fragments [of m S st]) blast
  from Cons.IH [OF rest, of ?st1] obtain rest' where r':
    "messages (fst (run (handleMessage S) ?st1 rest)) = messages ?st1 @ rest'"
    "length rest' = length rest"
    "length (concat (map fragments rest')) = length ?B"
    "\<And>j. buffered (accumulatedContent (fst (run (handleMessage S) ?st1 rest))) j =
          buffered (accumulatedContent ?st1) j @ concatenated j ?B"
    "\<And>n i. n < length ?B \<Longrightarrow> truthy (content (?B ! n)) \<Longrightarrow>
        partial_tool_call_index (?B ! n) = Some i \<Longrightarrow>
        accumulated_content (concat (map fragments rest') ! n) =
          Some (buffered (accumulatedContent ?st1) i @ concatenated i (take (Suc n) ?B))"
    by blast
  let ?B' = "concat (map fragments rest')"
  have run_eq: "fst (run (handleMessage S) st (m # rest)) = fst (run (handleMessage S) ?st1 rest)"
    by (rule run_Cons_fst)
  have att: "accumulated_content ((fragments m' @ ?B') ! n) =
      Some (buffered (accumulatedContent st) i @ concatenated i (take (Suc n) (?A @ ?B)))"
    if n: "n < length (?A @ ?B)" and c: "truthy (content ((?A @ ?B) ! n))"
      and ix: "partial_tool_call_index ((?A @ ?B) ! n) = Some i" for n i
  proof (cases "n < length ?A")
    case True
    with c ix have "truthy (content (?A ! n))" "partial_tool_call_index (?A ! n) = Some i"
      by (simp_all add: nth_append)
    with True have "accumulated_content (fragments m' ! n) =
        Some (buffered (accumulatedContent st) i @ concatenated i (take (Suc n) ?A))"
      by (rule m'(4))
    with True m'(2) show ?thesis by (simp add: nth_append)
  next
    case False
    define k where "k = n - length ?A"
    from False n have k: "k < length ?B" "n = length ?A + k" by (simp_all add: k_def)
    with c ix have "truthy (content (?B ! k))" "partial_tool_call_index (?B ! k) = Some i"
      by (simp_all add: nth_append)
    with k(1) have "accumulated_content (?B' ! k) =
        Some (buffered (accumulatedContent ?st1) i @ concatenated i (take (Suc k) ?B))"
      by (rule r'(5))
    moreover have "(fragments m' @ ?B') ! n = ?B' ! k"
      using k m'(2) by (simp add: nth_append)
    moreover have "take (Suc n) (?A @ ?B) = ?A @ take (Suc k) ?B"
      using k by simp
    ultimately show ?thesis
      by (simp add: m'(3) concatenated_append)
  qed
  show ?case
  proof (intro exI [of _ "m' # rest'"] conjI allI impI)
    show "messages (fst (run (handleMessage S) st (m # rest))) = messages st @ m' # rest'"
      using run_eq r'(1) m'(1) by simp
    show "length (m' # rest') = length (m # rest)" using r'(2) by simp
    show "length (concat (map fragments (m' # rest'))) = length (concat (map fragments (m # rest)))"
      using m'(2) r'(3) by simp
    show "buffered (accumulatedContent (fst (run (handleMessage S) st (m # rest)))) j =
          buffered (accumulatedContent st) j @ concatenated j (concat (map fragments (m # rest)))" for j
      using run_eq r'(4) [of j] m'(3) [of j] by (simp add: concatenated_append)
    show "accumulated_content (concat (map fragments (m' # rest')) ! n) =
          Some (buffered (accumulatedContent st) i @
                concatenated i (take (Suc n) (concat (map fragments (m # rest)))))"
      if "n < length (concat (map fragments (m # rest)))"
        "truthy (content (concat (map fragments (m # rest)) ! n))"
        "partial_tool_call_index (concat (map fragments (m # rest)) ! n) = Some i" for n i
      using att [of n i] that by simp
  qed
qed

lemma concatenated_take_last:
  assumes "n < length F" and "\<forall>k < length F. n < k \<longrightarrow> partial_tool_call_index (F ! k) \<noteq> Some i"
  shows "concatenated i (take (Suc n) F) = concatenated i F"
proof -
  have "filter (\<lambda>tc. partial_tool_call_index tc = Some i) (drop (Suc n) F) = []"
  proof (rule filter_False, rule ballI)
    fix tc assume "tc \<in> set (drop (Suc n) F)"
    then obtain k where "k < length (drop (Suc n) F)" "tc = drop (Suc n) F ! k"
      by (auto simp: in_set_conv_nth)
    then have "Suc n + k < length F" "tc = F ! (Suc n + k)" by simp_all
    with assms(2) show "\<not> partial_tool_call_index tc = Some i" by auto
  qed
  then have "concatenated i (drop (Suc n) F) = []" by (simp add: concatenated_def)
  moreover have "concatenated i F = concatenated i (take (Suc n) F) @ concatenated i (drop (Suc n) F)"
    using concatenated_append [of i "take (Suc n) F" "drop (Suc n) F"] by simp
  ultimately show ?thesis by simp
qed


section \<open>The example payloads parse to the example messages\<close>

lemma parse_payload_start: "JSON_parse payload_start = Some (Message message_start)"
  unfolding payload_start_def message_start_def blank_message_def by code_simp

lemma parse_payload_partial_Hel:
  "JSON_parse payload_partial_Hel = Some (Message (message_partial [fragment 0 ''Hel'']))"
  unfolding payload_partial_Hel_def message_partial_def fragment_def blank_message_def
  by code_simp

lemma parse_payload_partial_lo:
  "JSON_parse payload_partial_lo = Some (Message (message_partial [fragment 0 ''lo'']))"
  unfolding payload_partial_lo_def message_partial_def fragment_def blank_message_def
  by code_simp

lemma parse_payload_partial_empty:
  "JSON_parse payload_partial_empty = Some (Message (message_partial [fragment 0 []]))"
  unfolding payload_partial_empty_def message_partial_def fragment_def blank_message_def
  by code_simp

lemma parse_payload_response_usage:
  "JSON_parse payload_response_usage =
     Some (Message
       (message_response (Some \<lparr>input_tokens = Some 10, output_tokens = Some 5\<rparr>)))"
  unfolding payload_response_usage_def message_response_def blank_message_def by code_simp

lemma parse_payload_malformed: "JSON_parse payload_malformed = None"
  unfolding payload_malformed_def by code_simp

lemma parse_payload_start_spaced:
  "JSON_parse payload_start_spaced = Some (Message message_start)"
  unfolding payload_start_spaced_def message_start_def blank_message_def by code_simp

lemma parse_payload_null: "JSON_parse payload_null = Some Null"
  unfolding payload_null_def by code_simp

lemma parse_payload_null_fragment:
  "JSON_parse payload_null_fragment = Some (Null_fragment [fragment 0 ''Hel''])"
  unfolding payload_null_fragment_def fragment_def by code_simp

lemma parse_payload_text_tool_calls:
  "JSON_parse payload_text_tool_calls = Some Array_like_tool_calls"
  unfolding payload_text_tool_calls_def by code_simp

lemma line_payload_start: "JSON_parse_message payload_start = Some message_start"
  unfolding payload_start_def message_start_def blank_message_def by code_simp

lemma line_payload_response_usage:
  "JSON_parse_message payload_response_usage =
     Some (message_response (Some \<lparr>input_tokens = Some 10, output_tokens = Some 5\<rparr>))"
  unfolding payload_response_usage_def message_response_def blank_message_def by code_simp

lemma line_payload_malformed: "JSON_parse_message payload_malformed = None"
  unfolding payload_malformed_def by code_simp

lemma stringify_message_start: "JSON_stringify message_start = payload_start"
  unfolding payload_start_def message_start_def blank_message_def by code_simp

lemma stringify_message_response_usage:
  "JSON_stringify (message_response (Some \<lparr>input_tokens = Some 10, output_tokens = Some 5\<rparr>)) =
     payload_response_usage"
  unfolding payload_response_usage_def message_response_def blank_message_def by code_simp

lemma stringify_logged_partial_Hel:
  "JSON_stringify (message_partial [(fragment 0 ''Hel'')\<lparr>accumulated_content := Some ''Hel''\<rparr>]) =
     logged_partial_Hel"
  unfolding logged_partial_Hel_def message_partial_def blank_message_def fragment_def by code_simp

lemma nonblank_lines_stored_blob:
  "nonblank_lines stored_blob = [payload_start, payload_malformed, payload_response_usage]"
  unfolding nonblank_lines_def stored_blob_def payload_start_def payload_malformed_def
    payload_response_usage_def
  by code_simp

lemma parse_corrupt: \<open>JSON_parse_tools ''{"srv":["fetch",'' = None\<close>
  by code_simp

lemma parse_saved:
  \<open>JSON_parse_tools ''{"srv":["fetch","list"]}'' = Some [(''srv'', [''fetch'', ''list''])]\<close>
  by code_simp

lemma stringify_saved:
  \<open>JSON_stringify_tools [(''srv'', [''fetch'', ''list''])] = ''{"srv":["fetch","list"]}''\<close>
  by code_simp

lemmas example_messages =
  message_start_def message_partial_def message_response_def blank_message_def fragment_def

lemmas handler_defs =
  claude_stream_listener_def handleMessage_parsed_def handleMessage_def dispatch_def
  accumulate_call_def truthy_def message_usage_def totalTokens_def or_zero_def initial_state_def

lemma live_state_fields:
  "isStreaming live_state = True" "currentSessionId live_state = Some ''s1''"
  "length (messages live_state) = 3" "length (rawJsonlOutput live_state) = 3"
  "accumulatedContent live_state (tool_key 0) = Some ''Hel''"
  by (simp_all add: live_state_def handler_defs example_messages message_session_info_def)

lemma load_stored_blob:
  "loadMessages JSON_parse_message st (Resolved stored_blob) =
     (Inr (st\<lparr>messages := [message_start,
                message_response (Some \<lparr>input_tokens = Some 10, output_tokens = Some 5\<rparr>)],
              rawJsonlOutput := [payload_start, payload_response_usage]\<rparr>),
      [ConsoleError ''Failed to parse JSONL:''])"
proof -
  have "stored_blob \<noteq> []" by (simp add: stored_blob_def payload_start_def)
  moreover have "filter trim_nonempty (split_newline stored_blob) =
      [payload_start, payload_malformed, payload_response_usage]"
    using nonblank_lines_stored_blob by (simp add: nonblank_lines_def)
  ultimately show ?thesis
    by (simp add: loadMessages_def line_payload_start line_payload_malformed
        line_payload_response_usage)
qed

section \<open>The streaming flag at the end of a turn\<close>

text \<open>
  A \<open>response\<close> without usage and an \<open>error\<close> take the branch that ends streaming.
\<close>

lemma terminal_without_usage_ends_streaming:
  assumes "type m = Some ''error'' \<or> (type m = Some ''response'' \<and> message_usage m = None)"
  shows "isStreaming (fst (handleMessage S st m)) = False"
    and "snd (handleMessage S st m) = [OnStreamingChange False (currentSessionId st)]"
  using assms by (auto simp: handleMessage_def dispatch_def)

text \<open>
  A \<open>response\<close> that carries usage takes the token branch, which comes first in the chain,
  and never reaches the branch that ends streaming.
\<close>

lemma response_with_usage_keeps_flag:
  assumes "type m = Some ''response''" and "message_usage m \<noteq> None"
  shows "isStreaming (fst (handleMessage S st m)) = isStreaming st"
  using assms by (simp add: handleMessage_def dispatch_def)

text \<open>
  Claim C1: every ingested \<open>response\<close>, with or without usage, sets the streaming flag to
  false and notifies \<open>onStreamingChange(false, sessionId)\<close>; after \<open>start\<close> and a \<open>response\<close>
  carrying usage the flag has gone from true to false. The code does otherwise on that very
  input: after the two payloads the flag is still true, and the only callbacks made are
  \<open>onStreamingChange(true, null)\<close> and \<open>onTokenUpdate(15)\<close>.
\<close>

theorem start_response_usage_still_streaming:
  "isStreaming (fst (run (claude_stream_listener JSON_parse JSON_stringify) initial_state
      [payload_start, payload_response_usage])) = True \<and>
   snd (run (claude_stream_listener JSON_parse JSON_stringify) initial_state
      [payload_start, payload_response_usage]) =
     [OnStreamingChange True None, OnTokenUpdate 15]"
  by (simp add: parse_payload_start parse_payload_response_usage handler_defs example_messages)

section \<open>Token usage\<close>

text \<open>
  Claim C7: for every ingested \<open>response\<close> whose usage is present, \<open>onTokenUpdate\<close> is called
  exactly once, with the sum of the input and the output token count, a missing count being 0;
  no other callback is made.
\<close>

theorem response_usage_token_update:
  assumes "type m = Some ''response''" and "message_usage m = Some u"
  shows "snd (handleMessage stringify st m) =
           [OnTokenUpdate (or_zero (input_tokens u) + or_zero (output_tokens u))]"
  using assms by (simp add: handleMessage_def dispatch_def totalTokens_def)

text \<open>
  For 10 input and 5 output tokens the value is 15; with the output count missing, 7 input
  tokens give 7.
\<close>

theorem response_usage_token_update_witness:
  "JSON_parse payload_response_usage =
     Some (Message
       (message_response (Some \<lparr>input_tokens = Some 10, output_tokens = Some 5\<rparr>))) \<and>
   snd (handleMessage JSON_stringify initial_state
          (message_response (Some \<lparr>input_tokens = Some 10, output_tokens = Some 5\<rparr>))) =
     [OnTokenUpdate 15] \<and>
   snd (handleMessage JSON_stringify initial_state
          (message_response (Some \<lparr>input_tokens = Some 7, output_tokens = None\<rparr>))) =
     [OnTokenUpdate 7]"
  using response_usage_token_update
      [of "message_response (Some \<lparr>input_tokens = Some 10, output_tokens = Some 5\<rparr>)"
          "\<lparr>input_tokens = Some 10, output_tokens = Some 5\<rparr>" JSON_stringify initial_state]
    response_usage_token_update
      [of "message_response (Some \<lparr>input_tokens = Some 7, output_tokens = None\<rparr>)"
          "\<lparr>input_tokens = Some 7, output_tokens = None\<rparr>" JSON_stringify initial_state]
  by (simp add: parse_payload_response_usage message_response_def blank_message_def
      message_usage_def or_zero_def)

section \<open>Clearing\<close>

text \<open>
  Claim C9: \<open>clearMessages\<close> empties the message log, the raw-line log and the accumulation
  buffer, and leaves the streaming flag and the current session id as they were.
\<close>

theorem clearMessages_frame:
  "messages (clearMessages st) = [] \<and>
   rawJsonlOutput (clearMessages st) = [] \<and>
   accumulatedContent (clearMessages st) = Map.empty \<and>
   isStreaming (clearMessages st) = isStreaming st \<and>
   currentSessionId (clearMessages st) = currentSessionId st"
  by (simp add: clearMessages_def)

text \<open>
  Cleared in the middle of a turn, the hook has empty logs and an empty buffer, and is still
  streaming for the session \<open>s1\<close>.
\<close>

theorem clearMessages_frame_witness:
  "length (messages live_state) = 3 \<and> messages (clearMessages live_state) = [] \<and>
   length (rawJsonlOutput live_state) = 3 \<and> rawJsonlOutput (clearMessages live_state) = [] \<and>
   accumulatedContent live_state (tool_key 0) = Some ''Hel'' \<and>
   accumulatedContent (clearMessages live_state) = Map.empty \<and>
   isStreaming (clearMessages live_state) = True \<and>
   currentSessionId (clearMessages live_state) = Some ''s1''"
  using clearMessages_frame [of live_state] by (simp add: live_state_fields)

section \<open>Accumulated content\<close>

text \<open>
  Claim C2, as amended: \<open>start\<close> resets the accumulation buffer to empty; and when messages
  follow a \<open>start\<close> with no other \<open>start\<close> among them, the last fragment of a call index, if
  its content is not empty, is logged with an \<open>accumulated_content\<close> equal to the
  concatenation, in arrival order, of the contents of all the fragments of that index.
  Fragments are counted in arrival order across the messages; \<open>n\<close> is the position of the
  last fragment of index \<open>i\<close>.
\<close>

theorem partial_accumulation:
  assumes start: "type m0 = Some ''start''"
    and nostart: "\<forall>m \<in> set ms. type m \<noteq> Some ''start''"
    and n: "n < length (concat (map fragments ms))"
    and idx: "partial_tool_call_index (concat (map fragments ms) ! n) = Some i"
    and last: "\<forall>k < length (concat (map fragments ms)).
                 n < k \<longrightarrow> partial_tool_call_index (concat (map fragments ms) ! k) \<noteq> Some i"
    and nonempty: "truthy (content (concat (map fragments ms) ! n))"
  shows "accumulatedContent (fst (handleMessage S st m0)) = Map.empty \<and>
         accumulated_content
           (concat (map fragments
              (drop (Suc (length (messages st)))
                 (messages (fst (run (handleMessage S) st (m0 # ms)))))) ! n) =
           Some (concatenated i (concat (map fragments ms)))"
proof -
  let ?st1 = "fst (handleMessage S st m0)"
  from start have reset: "accumulatedContent ?st1 = Map.empty"
    and log: "messages ?st1 = messages st @ [m0]"
    by (simp_all add: handleMessage_def dispatch_def)
  from run_fragments [OF nostart, of S ?st1] obtain ms' where ms':
    "messages (fst (run (handleMessage S) ?st1 ms)) = messages ?st1 @ ms'"
    "\<And>n i. n < length (concat (map fragments ms)) \<Longrightarrow>
        truthy (content (concat (map fragments ms) ! n)) \<Longrightarrow>
        partial_tool_call_index (concat (map fragments ms) ! n) = Some i \<Longrightarrow>
        accumulated_content (concat (map fragments ms') ! n) =
          Some (buffered (accumulatedContent ?st1) i @
                concatenated i (take (Suc n) (concat (map fragments ms))))"
    by blast
  have "drop (Suc (length (messages st))) (messages (fst (run (handleMessage S) st (m0 # ms)))) = ms'"
    unfolding run_Cons_fst using ms'(1) log by simp
  moreover have "buffered (accumulatedContent ?st1) i = []"
    using reset by (simp add: buffered_def)
  moreover note ms'(2) [OF n nonempty idx] concatenated_take_last [OF n last] reset
  ultimately show ?thesis by simp
qed

text \<open>
  Four fragments in three messages; the last fragment of index 0 is the third one, and it is
  logged with \<open>Hello\<close>.
\<close>

theorem partial_accumulation_witness:
  "accumulated_content
     (concat (map fragments
        (drop 1 (messages (fst (run (handleMessage JSON_stringify) initial_state
           [message_start, message_partial [fragment 0 ''Hel''], message_partial [fragment 1 ''x''],
            message_partial [fragment 0 ''lo'', fragment 1 '''']]))))) ! 2) = Some ''Hello''"
proof -
  let ?ms = "[message_partial [fragment 0 ''Hel''], message_partial [fragment 1 ''x''],
              message_partial [fragment 0 ''lo'', fragment 1 '''']]"
  have F: "concat (map fragments ?ms) =
      [fragment 0 ''Hel'', fragment 1 ''x'', fragment 0 ''lo'', fragment 1 '''']"
    by (simp add: fragments_def message_partial_def blank_message_def)
  have "accumulatedContent (fst (handleMessage JSON_stringify initial_state message_start)) =
          Map.empty \<and>
        accumulated_content
          (concat (map fragments
             (drop (Suc (length (messages initial_state)))
                (messages (fst (run (handleMessage JSON_stringify) initial_state
                   (message_start # ?ms)))))) ! 2) =
          Some (concatenated 0 (concat (map fragments ?ms)))"
  proof (rule partial_accumulation)
    show "type message_start = Some ''start''"
      by (simp add: message_start_def blank_message_def)
    show "\<forall>m \<in> set ?ms. type m \<noteq> Some ''start''"
      by (simp add: message_partial_def blank_message_def)
    show "2 < length (concat (map fragments ?ms))" unfolding F by simp
    show "partial_tool_call_index (concat (map fragments ?ms) ! 2) = Some 0"
      unfolding F by (simp add: fragment_def)
    show "\<forall>k < length (concat (map fragments ?ms)).
            2 < k \<longrightarrow> partial_tool_call_index (concat (map fragments ?ms) ! k) \<noteq> Some 0"
      unfolding F by (simp add: fragment_def less_Suc_eq nth_Cons')
    show "truthy (content (concat (map fragments ?ms) ! 2))"
      unfolding F by (simp add: fragment_def truthy_def)
  qed
  moreover have "concatenated 0 (concat (map fragments ?ms)) = ''Hello''"
    unfolding F by (simp add: concatenated_def fragment_def content_text_def)
  moreover have "Suc (length (messages initial_state)) = 1" by (simp add: initial_state_def)
  ultimately show ?thesis by (simp only:)
qed

text \<open>
  The claim as first stated fails where the last fragment of an index has an empty content:
  the guard on \<open>toolCall.content\<close> skips it, and it is logged without the concatenation.
\<close>

theorem partial_accumulation_counterexample:
  "accumulated_content
     (last (fragments (last (messages
        (fst (run (claude_stream_listener JSON_parse JSON_stringify) initial_state
                [payload_start, payload_partial_Hel, payload_partial_empty])))))) = None \<and>
   Some (concatenated 0 [fragment 0 ''Hel'', fragment 0 '''']) = Some ''Hel''"
  by (simp add: parse_payload_start parse_payload_partial_Hel parse_payload_partial_empty
      handler_defs example_messages fragments_def concatenated_def content_text_def)

section \<open>Session identity\<close>

text \<open>
  Claim C10: a \<open>session_info\<close> message is appended to the message log in every case; it
  makes the hook call \<open>onSessionInfo\<close> and set the current session id exactly when both its
  session id and its project id are present and truthy, and otherwise makes no callback and
  leaves the current session id as it was.
\<close>

theorem session_info_identity:
  assumes "type m = Some ''session_info''"
  shows "messages (fst (handleMessage S st m)) = messages st @ [m] \<and>
         (if truthy (session_id m) \<and> truthy (project_id m)
          then snd (handleMessage S st m) =
                 [OnSessionInfo (the (session_id m)) (the (project_id m))] \<and>
               currentSessionId (fst (handleMessage S st m)) = session_id m
          else snd (handleMessage S st m) = [] \<and>
               currentSessionId (fst (handleMessage S st m)) = currentSessionId st)"
  using assms by (simp add: handleMessage_def dispatch_def Let_def)

text \<open>
  With both ids the identity is captured; with the project id missing, or the session id the
  empty string, nothing is captured and the message is logged all the same.
\<close>

theorem session_info_identity_witness:
  "snd (handleMessage JSON_stringify initial_state
          (message_session_info (Some ''s1'') (Some ''p1''))) = [OnSessionInfo ''s1'' ''p1''] \<and>
   currentSessionId (fst (handleMessage JSON_stringify initial_state
          (message_session_info (Some ''s1'') (Some ''p1'')))) = Some ''s1'' \<and>
   snd (handleMessage JSON_stringify initial_state
          (message_session_info (Some ''s1'') None)) = [] \<and>
   currentSessionId (fst (handleMessage JSON_stringify initial_state
          (message_session_info (Some ''s1'') None))) = None \<and>
   messages (fst (handleMessage JSON_stringify initial_state
          (message_session_info (Some ''s1'') None))) = [message_session_info (Some ''s1'') None] \<and>
   snd (handleMessage JSON_stringify initial_state
          (message_session_info (Some []) (Some ''p1''))) = []"
  using session_info_identity [of "message_session_info (Some ''s1'') (Some ''p1'')" JSON_stringify initial_state]
    session_info_identity [of "message_session_info (Some ''s1'') None" JSON_stringify initial_state]
    session_info_identity [of "message_session_info (Some []) (Some ''p1'')" JSON_stringify initial_state]
  by (simp add: message_session_info_def blank_message_def truthy_def initial_state_def)

section \<open>The logs\<close>

text \<open>
  The message logged for a parsed message is that message, with the fragments of a \<open>partial\<close>
  annotated.
\<close>

lemma accumulate_call_without:
  "accumulate_call acc tc = (acc', tc') \<Longrightarrow>
     tc'\<lparr>accumulated_content := None\<rparr> = tc\<lparr>accumulated_content := None\<rparr>"
  by (auto simp: accumulate_call_def Let_def split: if_splits)

lemma forEach_without:
  "forEach_tool_calls acc tcs = (acc', tcs') \<Longrightarrow>
     map (\<lambda>tc. tc\<lparr>accumulated_content := None\<rparr>) tcs' =
     map (\<lambda>tc. tc\<lparr>accumulated_content := None\<rparr>) tcs"
proof (induction tcs arbitrary: acc acc' tcs')
  case Nil
  then show ?case by simp
next
  case (Cons tc tcs)
  obtain a1 tc1 where h: "accumulate_call acc tc = (a1, tc1)" by (cases "accumulate_call acc tc")
  obtain a2 r where t: "forEach_tool_calls a1 tcs = (a2, r)" by (cases "forEach_tool_calls a1 tcs")
  from Cons.prems h t have "tcs' = tc1 # r" by simp
  with accumulate_call_without [OF h] Cons.IH [OF t] show ?case by simp
qed

lemma dispatch_logged_form: "logged_form m (fst (snd (dispatch st m)))"
proof (cases "type m = Some ''partial'' \<and> (\<exists>tcs. tool_calls m = Some tcs \<and> tcs \<noteq> [])")
  case True
  then obtain tcs where p: "type m = Some ''partial''" and tcs: "tool_calls m = Some tcs" "tcs \<noteq> []"
    by blast
  obtain acc' tcs' where fe: "forEach_tool_calls (accumulatedContent st) tcs = (acc', tcs')"
    by (cases "forEach_tool_calls (accumulatedContent st) tcs")
  from p tcs fe have "fst (snd (dispatch st m)) = m\<lparr>tool_calls := Some tcs'\<rparr>"
    by (simp add: dispatch_def)
  with p tcs forEach_without [OF fe] show ?thesis
    by (simp add: logged_form_def without_accumulated_def)
next
  case False
  then have "fst (snd (dispatch st m)) = m"
    by (auto simp: dispatch_def split: option.splits)
  then show ?thesis by (simp add: logged_form_def)
qed

lemma handleMessage_log:
  "messages (fst (handleMessage S st m)) = messages st @ [fst (snd (dispatch st m))]"
  "rawJsonlOutput (fst (handleMessage S st m)) = rawJsonlOutput st @ [S (fst (snd (dispatch st m)))]"
  by (auto simp: handleMessage_def dispatch_def Let_def split: prod.splits option.splits)

text \<open>
  The listener on a payload that delivers a message is \<open>handleMessage\<close> on that message; on
  any other payload it leaves both logs as they were.
\<close>

lemma listener_delivered:
  "delivered parse p = Some m \<Longrightarrow>
     claude_stream_listener parse S st p = handleMessage S st m"
  by (auto simp: delivered_def claude_stream_listener_def handleMessage_parsed_def
      split: option.splits parsed.splits)

lemma listener_dropped_logs:
  assumes "delivered parse p = None"
  shows "messages (fst (claude_stream_listener parse S st p)) = messages st"
    and "rawJsonlOutput (fst (claude_stream_listener parse S st p)) = rawJsonlOutput st"
  using assms
  by (auto simp: delivered_def claude_stream_listener_def handleMessage_parsed_def
      split: option.splits parsed.splits)




section \<open>Loading a stored session\<close>

text \<open>
  Claim C5: \<open>loadMessages\<close> is idempotent. For a blob the session store returns, a second
  call leaves the state the first call produced and reports the same diagnostics; and the
  logs it produces are those of the blob whatever the state held before, so the result
  replaces the logs and does not extend them.
\<close>

theorem loadMessages_idempotent:
  "\<exists>st1 fx. loadMessages parse st (Resolved blob) = (Inr st1, fx) \<and>
            loadMessages parse st1 (Resolved blob) = (Inr st1, fx) \<and>
            (\<forall>st'. \<exists>st2. loadMessages parse st' (Resolved blob) = (Inr st2, fx) \<and>
                         messages st2 = messages st1 \<and>
                         rawJsonlOutput st2 = rawJsonlOutput st1)"
  by (auto simp: loadMessages_def Let_def split: prod.splits)

text \<open>
  Loading the stored blob into a fresh hook, into the state that gave, and into a hook in the
  middle of a turn gives the same two logs.
\<close>

theorem loadMessages_idempotent_witness:
  "fst (loadMessages JSON_parse_message initial_state (Resolved stored_blob)) = Inr loaded_state \<and>
   fst (loadMessages JSON_parse_message loaded_state (Resolved stored_blob)) = Inr loaded_state \<and>
   fst (loadMessages JSON_parse_message live_state (Resolved stored_blob)) =
     Inr (live_state\<lparr>messages := messages loaded_state,
                      rawJsonlOutput := rawJsonlOutput loaded_state\<rparr>)"
proof -
  from loadMessages_idempotent [of JSON_parse_message initial_state stored_blob]
  obtain st1 fx where
    first: "loadMessages JSON_parse_message initial_state (Resolved stored_blob) = (Inr st1, fx)"
    and again: "loadMessages JSON_parse_message st1 (Resolved stored_blob) = (Inr st1, fx)"
    by blast
  from first have "st1 = loaded_state"
    by (simp add: load_stored_blob loaded_state_def)
  with first again show ?thesis
    by (simp add: load_stored_blob loaded_state_def)
qed

section \<open>Malformed records\<close>

lemma load_lines_filter:
  "load_lines parse ls =
     (map (the \<circ> parse) (filter (parses parse) ls), filter (parses parse) ls,
      map (\<lambda>_. ConsoleError ''Failed to parse JSONL:'') (filter (\<lambda>l. \<not> parses parse l) ls))"
  by (induction ls) (auto simp: parses_def split: prod.splits option.splits)

lemma listener_rejects:
  "parse p = None \<Longrightarrow> claude_stream_listener parse S st p =
     (st, [ConsoleError ''[TRACE] Failed to parse Claude stream message:''])"
  by (simp add: claude_stream_listener_def)

lemma run_append_fst:
  "fst (run step st (xs @ ys)) = fst (run step (fst (run step st xs)) ys)"
proof (induction xs arbitrary: st)
  case Nil
  show ?case by simp
next
  case (Cons x xs)
  have "fst (run step st ((x # xs) @ ys)) = fst (run step (fst (step st x)) (xs @ ys))"
    by (simp only: append_Cons run_Cons_fst)
  also have "\<dots> = fst (run step (fst (run step (fst (step st x)) xs)) ys)"
    by (rule Cons.IH)
  also have "\<dots> = fst (run step (fst (run step st (x # xs))) ys)"
    by (simp only: run_Cons_fst)
  finally show ?case .
qed

text \<open>
  Claim C6: a payload that fails to parse is reported on the console and dropped, the whole
  state as it was; the payloads around it are handled as if it had not come, so that a
  well-formed payload right after it is handled by \<open>handleMessage\<close> on the untouched state and
  its message and raw line are appended. And \<open>loadMessages\<close> loads exactly the non-blank
  lines of the blob that parse, in order, each with its raw line, reporting one diagnostic for
  each line that does not.
\<close>

theorem malformed_record_discarded:
  assumes "parse bad = None"
  shows "claude_stream_listener parse S st bad =
           (st, [ConsoleError ''[TRACE] Failed to parse Claude stream message:'']) \<and>
         fst (run (claude_stream_listener parse S) st (ps @ bad # qs)) =
           fst (run (claude_stream_listener parse S) st (ps @ qs)) \<and>
         run (claude_stream_listener parse S) st (bad # qs) =
           (fst (run (claude_stream_listener parse S) st qs),
            ConsoleError ''[TRACE] Failed to parse Claude stream message:'' #
              snd (run (claude_stream_listener parse S) st qs)) \<and>
         (parse good = Some (Message m) \<longrightarrow>
            run (claude_stream_listener parse S) st [bad, good] =
              (fst (handleMessage S st m),
               ConsoleError ''[TRACE] Failed to parse Claude stream message:'' #
                 snd (handleMessage S st m)) \<and>
            messages (fst (run (claude_stream_listener parse S) st [bad, good])) =
              messages st @ [fst (snd (dispatch st m))] \<and>
            rawJsonlOutput (fst (run (claude_stream_listener parse S) st [bad, good])) =
              rawJsonlOutput st @ [S (fst (snd (dispatch st m)))]) \<and>
         loadMessages parse_line st (Resolved blob) =
           (Inr (st\<lparr>messages :=
                      map (the \<circ> parse_line) (filter (parses parse_line) (nonblank_lines blob)),
                    rawJsonlOutput := filter (parses parse_line) (nonblank_lines blob)\<rparr>),
            map (\<lambda>_. ConsoleError ''Failed to parse JSONL:'')
              (filter (\<lambda>l. \<not> parses parse_line l) (nonblank_lines blob)))"
proof (intro conjI impI)
  let ?L = "claude_stream_listener parse S"
  show rej: "?L st bad = (st, [ConsoleError ''[TRACE] Failed to parse Claude stream message:''])"
    using assms by (rule listener_rejects)
  show "fst (run ?L st (ps @ bad # qs)) = fst (run ?L st (ps @ qs))"
    unfolding run_append_fst run_Cons_fst using assms by (simp add: listener_rejects)
  show skip: "run ?L st (bad # qs) =
      (fst (run ?L st qs),
       ConsoleError ''[TRACE] Failed to parse Claude stream message:'' # snd (run ?L st qs))" for qs
    by (simp add: rej split: prod.splits)
  assume good: "parse good = Some (Message m)"
  then have one: "run ?L st [good] = handleMessage S st m"
    by (simp add: claude_stream_listener_def handleMessage_parsed_def split: prod.splits)
  show both: "run ?L st [bad, good] =
      (fst (handleMessage S st m),
       ConsoleError ''[TRACE] Failed to parse Claude stream message:'' # snd (handleMessage S st m))"
    by (simp only: skip one)
  show "messages (fst (run ?L st [bad, good])) = messages st @ [fst (snd (dispatch st m))]"
    by (simp only: both fst_conv handleMessage_log)
  show "rawJsonlOutput (fst (run ?L st [bad, good])) =
      rawJsonlOutput st @ [S (fst (snd (dispatch st m)))]"
    by (simp only: both fst_conv handleMessage_log)
next
  show "loadMessages parse_line st (Resolved blob) =
      (Inr (st\<lparr>messages :=
                 map (the \<circ> parse_line) (filter (parses parse_line) (nonblank_lines blob)),
               rawJsonlOutput := filter (parses parse_line) (nonblank_lines blob)\<rparr>),
       map (\<lambda>_. ConsoleError ''Failed to parse JSONL:'')
         (filter (\<lambda>l. \<not> parses parse_line l) (nonblank_lines blob)))"
  proof (cases "blob = []")
    case True
    then show ?thesis
      by (simp add: loadMessages_def nonblank_lines_def trim_nonempty_def)
  next
    case False
    then show ?thesis
      by (simp add: loadMessages_def nonblank_lines_def load_lines_filter)
  qed
qed

text \<open>
  A cut-off record between a start and a response: it is reported and dropped, and the log
  holds the start and the response, the response having made its token callback. In the
  stored blob the cut-off line is skipped and the start before it and the response after it
  are loaded.
\<close>

theorem malformed_record_discarded_witness:
  "JSON_parse payload_malformed = None \<and>
   claude_stream_listener JSON_parse JSON_stringify initial_state payload_malformed =
     (initial_state, [ConsoleError ''[TRACE] Failed to parse Claude stream message:'']) \<and>
   messages (fst (run (claude_stream_listener JSON_parse JSON_stringify) initial_state
          [payload_start, payload_malformed, payload_response_usage])) =
     [message_start,
      message_response (Some \<lparr>input_tokens = Some 10, output_tokens = Some 5\<rparr>)] \<and>
   rawJsonlOutput (fst (run (claude_stream_listener JSON_parse JSON_stringify) initial_state
          [payload_start, payload_malformed, payload_response_usage])) =
     [payload_start, payload_response_usage] \<and>
   snd (run (claude_stream_listener JSON_parse JSON_stringify) initial_state
          [payload_start, payload_malformed, payload_response_usage]) =
     [OnStreamingChange True None,
      ConsoleError ''[TRACE] Failed to parse Claude stream message:'', OnTokenUpdate 15] \<and>
   run (claude_stream_listener JSON_parse JSON_stringify) initial_state
       [payload_malformed, payload_response_usage] =
     (initial_state
        \<lparr>messages :=
           [message_response (Some \<lparr>input_tokens = Some 10, output_tokens = Some 5\<rparr>)],
         rawJsonlOutput := [payload_response_usage]\<rparr>,
      [ConsoleError ''[TRACE] Failed to parse Claude stream message:'', OnTokenUpdate 15]) \<and>
   loadMessages JSON_parse_message initial_state (Resolved stored_blob) =
     (Inr (initial_state
         \<lparr>messages := [message_start,
              message_response (Some \<lparr>input_tokens = Some 10, output_tokens = Some 5\<rparr>)],
          rawJsonlOutput := [payload_start, payload_response_usage]\<rparr>),
      [ConsoleError ''Failed to parse JSONL:''])"
proof -
  note w = malformed_record_discarded
    [where parse = JSON_parse and bad = payload_malformed and S = JSON_stringify
       and st = initial_state and ps = "[payload_start]" and qs = "[payload_response_usage]"
       and good = payload_response_usage
       and m = "message_response (Some \<lparr>input_tokens = Some 10, output_tokens = Some 5\<rparr>)"
       and parse_line = JSON_parse_message and blob = stored_blob,
     OF parse_payload_malformed]
  have f: "type message_start = Some ''start''"
    "type (message_response (Some \<lparr>input_tokens = Some 10, output_tokens = Some 5\<rparr>)) =
       Some ''response''"
    "message (message_response (Some \<lparr>input_tokens = Some 10, output_tokens = Some 5\<rparr>)) =
       Some \<lparr>usage = Some \<lparr>input_tokens = Some 10, output_tokens = Some 5\<rparr>\<rparr>"
    by (simp_all add: example_messages)
  have three: "run (claude_stream_listener JSON_parse JSON_stringify) initial_state
      [payload_start, payload_malformed, payload_response_usage] =
      (initial_state
         \<lparr>messages := [message_start,
              message_response (Some \<lparr>input_tokens = Some 10, output_tokens = Some 5\<rparr>)],
          rawJsonlOutput := [payload_start, payload_response_usage],
          isStreaming := True\<rparr>,
       [OnStreamingChange True None,
        ConsoleError ''[TRACE] Failed to parse Claude stream message:'', OnTokenUpdate 15])"
    by (simp add: parse_payload_start parse_payload_malformed parse_payload_response_usage
        handler_defs f stringify_message_start stringify_message_response_usage)
  have two: "handleMessage JSON_stringify initial_state
      (message_response (Some \<lparr>input_tokens = Some 10, output_tokens = Some 5\<rparr>)) =
      (initial_state
        \<lparr>messages :=
           [message_response (Some \<lparr>input_tokens = Some 10, output_tokens = Some 5\<rparr>)],
         rawJsonlOutput := [payload_response_usage]\<rparr>, [OnTokenUpdate 15])"
    by (simp add: handler_defs f stringify_message_response_usage)
  note dropped = w [THEN conjunct1]
  note next_handled = w [THEN conjunct2, THEN conjunct2, THEN conjunct2, THEN conjunct1,
      THEN mp, OF parse_payload_response_usage, THEN conjunct1]
  note loaded = w [THEN conjunct2, THEN conjunct2, THEN conjunct2, THEN conjunct2]
  from dropped next_handled loaded three two show ?thesis
    by (simp add: nonblank_lines_stored_blob parses_def line_payload_malformed
        line_payload_start line_payload_response_usage parse_payload_malformed
        del: run.simps)
qed

section \<open>Opening a session that already has a tab\<close>

lemma find_Some_props:
  "find P xs = Some x \<Longrightarrow> P x \<and> x \<in> set xs"
  by (induction xs) (auto split: if_splits)

lemma find_exists: "\<exists>x \<in> set xs. P x \<Longrightarrow> \<exists>y. find P xs = Some y"
  by (induction xs) auto

lemma merge_display_fields:
  "sessionId (merge_fields (no_fields\<lparr>f_sessionData := d, f_title := t\<rparr>) x) = sessionId x"
  "tab_id (merge_fields f x) = tab_id x"
  by (simp_all add: merge_fields_def no_fields_def)

lemma existing_session_branch:
  assumes "findTabBySessionId reg (session_ident s) = Some t"
  shows "handleOpenSessionInTab newTabId s reg =
           switchTo (tab_id t) (updateTab (tab_id t)
             (no_fields\<lparr>f_sessionData := Some s, f_title := Some (session_title s)\<rparr>) reg)"
    and "handleClaudeSessionSelected newTabId s reg =
           switchTo (tab_id t) (updateTab (tab_id t)
             (no_fields\<lparr>f_sessionData := Some s, f_title := Some (session_title s)\<rparr>) reg)"
  using assms by (simp_all add: handleOpenSessionInTab_def handleClaudeSessionSelected_def)

lemma update_display_keeps_binding:
  "map sessionId (tabs (switchTo a (updateTab b
      (no_fields\<lparr>f_sessionData := d, f_title := t\<rparr>) reg))) = map sessionId (tabs reg)"
  "map tab_id (tabs (switchTo a (updateTab b f reg))) = map tab_id (tabs reg)"
  "activeTabId (switchTo a (updateTab b f reg)) = Some a"
  by (simp_all add: switchTo_def updateTab_def merge_display_fields)

lemma bound_sessions_map:
  "bound_sessions reg =
     concat (map (\<lambda>v. case v of None \<Rightarrow> [] | Some sid \<Rightarrow> [sid]) (map sessionId (tabs reg)))"
  by (simp add: bound_sessions_def comp_def)



section \<open>The persisted tool list\<close>

text \<open>
  Claim C8, as amended: at mount, a value of \<open>mcp_server_tools\<close> that is absent, empty or
  rejected by the parser leaves the tool list the empty mapping and the component state as it
  was, with no failure; the key is written back, with the serialised new tool list, after each
  test whose status query succeeds and after each refresh of all statuses, while a test whose
  status query fails changes neither the tool list nor the store.
\<close>

theorem server_tools_load_and_persist:
  assumes "store ''mcp_server_tools'' = None \<or> store ''mcp_server_tools'' = Some [] \<or>
           (\<exists>saved. store ''mcp_server_tools'' = Some saved \<and> parse saved = None)"
  shows "serverTools (fst (load_server_tools parse (mcp_initial store))) = [] \<and>
         fst (load_server_tools parse (mcp_initial store)) = mcp_initial store \<and>
         (mcpGet name = Resolved running \<longrightarrow>
            serverTools (fst (handleTestConnection stringify mcpGet transport name st)) =
              set_property (serverTools st) name (tools_of_status running) \<and>
            localStorage (fst (handleTestConnection stringify mcpGet transport name st))
                ''mcp_server_tools'' =
              Some (stringify (serverTools
                 (fst (handleTestConnection stringify mcpGet transport name st))))) \<and>
         (mcpGet name = Rejected \<longrightarrow>
            serverTools (fst (handleTestConnection stringify mcpGet transport name st)) =
              serverTools st \<and>
            localStorage (fst (handleTestConnection stringify mcpGet transport name st)) =
              localStorage st) \<and>
         localStorage (fst (handleRefreshAllStatuses stringify mcpGet servers st))
             ''mcp_server_tools'' =
           Some (stringify (serverTools
              (fst (handleRefreshAllStatuses stringify mcpGet servers st))))"
proof (intro conjI impI)
  from assms show "serverTools (fst (load_server_tools parse (mcp_initial store))) = []"
    by (auto simp: load_server_tools_def mcp_initial_def)
  from assms show "fst (load_server_tools parse (mcp_initial store)) = mcp_initial store"
    by (auto simp: load_server_tools_def mcp_initial_def)
  show "serverTools (fst (handleTestConnection stringify mcpGet transport name st)) =
          set_property (serverTools st) name (tools_of_status running)"
    if "mcpGet name = Resolved running"
    using that by (simp add: handleTestConnection_def Let_def)
  show "localStorage (fst (handleTestConnection stringify mcpGet transport name st))
          ''mcp_server_tools'' =
        Some (stringify (serverTools (fst (handleTestConnection stringify mcpGet transport name st))))"
    if "mcpGet name = Resolved running"
    using that by (simp add: handleTestConnection_def Let_def)
  show "serverTools (fst (handleTestConnection stringify mcpGet transport name st)) = serverTools st"
    if "mcpGet name = Rejected"
    using that by (simp add: handleTestConnection_def Let_def)
  show "localStorage (fst (handleTestConnection stringify mcpGet transport name st)) = localStorage st"
    if "mcpGet name = Rejected"
    using that by (simp add: handleTestConnection_def Let_def)
  show "localStorage (fst (handleRefreshAllStatuses stringify mcpGet servers st)) ''mcp_server_tools'' =
        Some (stringify (serverTools (fst (handleRefreshAllStatuses stringify mcpGet servers st))))"
    by (simp add: handleRefreshAllStatuses_def Let_def split: prod.splits)
qed

text \<open>
  A cut-off saved value leaves the list empty and is reported; an absent one leaves it empty;
  a successful test writes the list; a saved value that is whole is loaded.
\<close>

theorem server_tools_load_and_persist_witness:
  \<open>serverTools (fst (load_server_tools JSON_parse_tools (mcp_initial corrupt_store))) = [] \<and>
   snd (load_server_tools JSON_parse_tools (mcp_initial corrupt_store)) =
     [McpConsoleError ''Failed to parse saved server tools:''] \<and>
   serverTools (fst (load_server_tools JSON_parse_tools (mcp_initial Map.empty))) = [] \<and>
   localStorage (fst (handleTestConnection JSON_stringify_tools (\<lambda>_. Resolved True) ''stdio''
        ''srv'' (mcp_initial Map.empty))) ''mcp_server_tools'' = Some ''{"srv":["fetch","list"]}'' \<and>
   serverTools (fst (load_server_tools JSON_parse_tools (mcp_initial saved_store))) =
     [(''srv'', [''fetch'', ''list''])]\<close>
proof -
  have c: \<open>corrupt_store ''mcp_server_tools'' = Some ''{"srv":["fetch",''\<close>
    by (simp add: corrupt_store_def)
  have h: "corrupt_store ''mcp_server_tools'' = None \<or> corrupt_store ''mcp_server_tools'' = Some [] \<or>
      (\<exists>saved. corrupt_store ''mcp_server_tools'' = Some saved \<and> JSON_parse_tools saved = None)"
    using c parse_corrupt by simp
  have e: "Map.empty ''mcp_server_tools'' = None \<or> Map.empty ''mcp_server_tools'' = Some [] \<or>
      (\<exists>saved. Map.empty ''mcp_server_tools'' = Some saved \<and> JSON_parse_tools saved = None)"
    by simp
  note w1 = server_tools_load_and_persist
      [where store = corrupt_store and parse = JSON_parse_tools
         and mcpGet = "\<lambda>_. Resolved True" and name = "''srv''"
         and stringify = JSON_stringify_tools and transport = "''stdio''"
         and st = "mcp_initial Map.empty" and servers = "[]" and running = True, OF h]
  note w2 = server_tools_load_and_persist
      [where store = Map.empty and parse = JSON_parse_tools
         and mcpGet = "\<lambda>_. Resolved True" and name = "''srv''"
         and stringify = JSON_stringify_tools and transport = "''stdio''"
         and st = "mcp_initial Map.empty" and servers = "[]" and running = True, OF e]
  have d: "snd (load_server_tools JSON_parse_tools (mcp_initial corrupt_store)) =
     [McpConsoleError ''Failed to parse saved server tools:'']"
    by (simp add: load_server_tools_def mcp_initial_def c parse_corrupt)
  have s: "serverTools (fst (load_server_tools JSON_parse_tools (mcp_initial saved_store))) =
     [(''srv'', [''fetch'', ''list''])]"
    by (simp add: load_server_tools_def mcp_initial_def saved_store_def parse_saved)
  from w1 w2 d s show ?thesis
    by (simp add: mcp_initial_def tools_of_status_def stringify_saved)
qed

text \<open>
  The claim as first stated fails for the write-back: after a test whose status query fails
  the key has not been written.
\<close>

theorem failed_test_writes_nothing:
  "localStorage (fst (handleTestConnection JSON_stringify_tools (\<lambda>_. Rejected) ''unknown'' ''srv''
      (mcp_initial Map.empty))) ''mcp_server_tools'' = None \<and>
   snd (handleTestConnection JSON_stringify_tools (\<lambda>_. Rejected) ''unknown'' ''srv''
      (mcp_initial Map.empty)) =
     [McpConsoleError ''Failed to get server details:'', TrackConnectionError ''srv'']"
  by (simp add: handleTestConnection_def mcp_initial_def)

end
